theory Spec2Isabelle
  imports Main
begin

section \<open>Strings, identifiers and the clock\<close>

text \<open>
  The components build record ids from template literals such as
  \<^verbatim>\<open>`msg_${Date.now()}`\<close>. \<open>show_nat\<close> is the decimal rendering that the
  template literal applies to a non-negative integer timestamp.
  Each model function takes \<open>clock :: nat \<Rightarrow> nat\<close>: \<open>clock k\<close> is the value
  returned by the \<open>k\<close>-th call of \<^verbatim>\<open>Date.now()\<close> that the invocation makes
  (numbered from 0, in evaluation order).
\<close>

definition digit_char :: "nat \<Rightarrow> char" where
  "digit_char d = char_of (48 + d)"

fun show_nat :: "nat \<Rightarrow> string" where
  "show_nat n = (if n < 10 then [digit_char n] else show_nat (n div 10) @ [digit_char (n mod 10)])"

declare show_nat.simps [simp del]

text \<open>
  \<^verbatim>\<open>String.prototype.trim\<close> removes leading and trailing white space and line
  terminators. Of these, the code units that fit the 8-bit \<open>char\<close> are
  TAB, LF, VT, FF, CR, SPACE and NBSP.
\<close>

definition isWhiteSpace :: "char \<Rightarrow> bool" where
  "isWhiteSpace c = (c \<in> set [CHR 0x09, CHR 0x0A, CHR 0x0B, CHR 0x0C, CHR 0x0D, CHR 0x20, CHR 0xA0])"

definition trim :: "string \<Rightarrow> string" where
  "trim s = rev (dropWhile isWhiteSpace (rev (dropWhile isWhiteSpace s)))"

text \<open>\<^verbatim>\<open>s.startsWith(p)\<close>\<close>

definition startsWith :: "string \<Rightarrow> string \<Rightarrow> bool" where
  "startsWith s p = (take (length p) s = p)"


section \<open>The record store\<close>

text \<open>
  The store (\<^verbatim>\<open>blink.db\<close>) is an external collaborator reached through
  \<^verbatim>\<open>list\<close>, \<^verbatim>\<open>create\<close>, \<^verbatim>\<open>update\<close> and \<^verbatim>\<open>delete\<close>. Each collection is
  a list of rows in the order in which \<^verbatim>\<open>list\<close> returns them when no
  \<^verbatim>\<open>orderBy\<close> is given; \<^verbatim>\<open>create\<close> appends a row, \<^verbatim>\<open>delete(id)\<close> removes
  the rows carrying that id, \<^verbatim>\<open>list({where})\<close> filters.

  Any call on the store may throw. Each model function takes
  \<open>fails :: nat \<Rightarrow> bool\<close>: \<open>fails k\<close> says that the \<open>k\<close>-th awaited store
  call of the invocation (numbered from 0) throws. The handlers report a caught error
  with \<^verbatim>\<open>console.error(label, error)\<close> and in no other way; each component state
  carries the labels logged so far.
\<close>

record user =
  user_id :: string
  user_displayName :: string
  user_email :: string
  user_avatarUrl :: "string option"
  user_isOnline :: bool
  user_lastSeen :: nat

datatype messageType = Text | Image | Video | Audio | Document

text \<open>
  The fields of the \<^verbatim>\<open>Message\<close> interface of ChatArea.tsx that are stored.
  \<open>msg_updatedAt\<close> is written on every stored row and is absent on the optimistic local
  message.
\<close>

record message =
  msg_id :: string
  msg_chatId :: string
  msg_senderId :: string
  msg_content :: string
  msg_messageType :: messageType
  msg_fileUrl :: "string option"
  msg_fileName :: "string option"
  msg_fileSize :: "nat option"
  msg_replyToMessageId :: "string option"
  msg_isForwarded :: bool
  msg_isStarred :: bool
  msg_createdAt :: nat
  msg_updatedAt :: "nat option"

datatype chatType = Individual | Group

record chat =
  chat_id :: string
  chat_name :: "string option"
  chat_type :: chatType
  chat_avatarUrl :: "string option"
  chat_createdBy :: string
  chat_createdAt :: nat
  chat_updatedAt :: nat
  chat_lastMessageAt :: nat

record chatParticipant =
  cp_id :: string
  cp_chatId :: string
  cp_userId :: string
  cp_joinedAt :: nat

record groupRow =
  grp_id :: string
  grp_name :: string
  grp_description :: string
  grp_createdBy :: string
  grp_createdAt :: nat
  grp_updatedAt :: nat

datatype role = Admin | Member

record groupMember =
  gm_id :: string
  gm_groupId :: string
  gm_userId :: string
  gm_role :: role
  gm_joinedAt :: nat

datatype contentType = ImageContent | VideoContent

record story =
  story_id :: string
  story_userId :: string
  story_contentUrl :: string
  story_contentType :: contentType
  story_caption :: string
  story_createdAt :: nat
  story_expiresAt :: nat

record storyView =
  view_id :: string
  view_storyId :: string
  view_viewerId :: string
  view_viewedAt :: nat

record db =
  tbl_users :: "user list"
  tbl_chats :: "chat list"
  tbl_chatParticipants :: "chatParticipant list"
  tbl_groups :: "groupRow list"
  tbl_groupMembers :: "groupMember list"
  tbl_messages :: "message list"
  tbl_stories :: "story list"
  tbl_storyViews :: "storyView list"

text \<open>\<^verbatim>\<open>blink.db.users.list({ where: { id }, limit: 1 })[0]\<close>\<close>

definition findUser :: "db \<Rightarrow> string \<Rightarrow> user option" where
  "findUser d uid = (case filter (\<lambda>u. user_id u = uid) (tbl_users d) of [] \<Rightarrow> None | u # _ \<Rightarrow> Some u)"


section \<open>ChatArea.tsx: the message pipeline\<close>

text \<open>
  A message as the component holds it: the stored fields plus the resolved
  \<^verbatim>\<open>sender\<close> and \<^verbatim>\<open>replyToMessage\<close>.
\<close>

datatype localMessage =
  LocalMessage (lm_fields: message) (lm_sender: "user option") (lm_replyToMessage: "localMessage option")

record chatArea =
  messages :: "localMessage list"
  newMessage :: string
  replyToMessage :: "localMessage option"
  selectedMessage :: "localMessage option"
  clipboard :: string
  openedWindows :: "string list"
  area_log :: "string list"

text \<open>\<^verbatim>\<open>replyToMessage?.id\<close>\<close>

definition replyId :: "localMessage option \<Rightarrow> string option" where
  "replyId r = map_option (\<lambda>m. msg_id (lm_fields m)) r"

text \<open>The object literal of lines 200-212.\<close>

definition optimisticMessage :: "string \<Rightarrow> string \<Rightarrow> user \<Rightarrow> chatArea \<Rightarrow> nat \<Rightarrow> localMessage" where
  "optimisticMessage messageId selectedChatId currentUser st now =
     LocalMessage
       \<lparr> msg_id = messageId, msg_chatId = selectedChatId, msg_senderId = user_id currentUser,
         msg_content = newMessage st, msg_messageType = Text,
         msg_fileUrl = None, msg_fileName = None, msg_fileSize = None,
         msg_replyToMessageId = replyId (replyToMessage st),
         msg_isForwarded = False, msg_isStarred = False,
         msg_createdAt = now, msg_updatedAt = None \<rparr>
       (Some currentUser) (replyToMessage st)"

text \<open>The row handed to \<^verbatim>\<open>blink.db.messages.create\<close> (lines 220-231).\<close>

definition sentRow :: "string \<Rightarrow> string \<Rightarrow> user \<Rightarrow> chatArea \<Rightarrow> nat \<Rightarrow> message" where
  "sentRow messageId selectedChatId currentUser st now =
     \<lparr> msg_id = messageId, msg_chatId = selectedChatId, msg_senderId = user_id currentUser,
       msg_content = newMessage st, msg_messageType = Text,
       msg_fileUrl = None, msg_fileName = None, msg_fileSize = None,
       msg_replyToMessageId = replyId (replyToMessage st),
       msg_isForwarded = False, msg_isStarred = False,
       msg_createdAt = now, msg_updatedAt = Some now \<rparr>"

text \<open>\<^verbatim>\<open>blink.db.chats.update(selectedChatId, { lastMessageAt: now, updatedAt: now })\<close>\<close>

definition touchChat :: "string \<Rightarrow> nat \<Rightarrow> db \<Rightarrow> db" where
  "touchChat cid now d =
     d\<lparr>tbl_chats := map (\<lambda>c. if chat_id c = cid then c\<lparr>chat_lastMessageAt := now, chat_updatedAt := now\<rparr> else c)
                         (tbl_chats d)\<rparr>"

text \<open>The \<^verbatim>\<open>catch\<close> block of \<^verbatim>\<open>sendMessage\<close> (lines 239-243).\<close>

definition removeOptimistic :: "string \<Rightarrow> chatArea \<Rightarrow> chatArea" where
  "removeOptimistic messageId st =
     st\<lparr>area_log := area_log st @ [''Error sending message:''],
        messages := filter (\<lambda>m. msg_id (lm_fields m) \<noteq> messageId) (messages st)\<rparr>"

text \<open>
  \<^verbatim>\<open>sendMessage\<close> (lines 192-244). Clock reads: 0 for the id, 1 for \<^verbatim>\<open>now\<close>.
  Store calls: 0 is \<^verbatim>\<open>messages.create\<close>, 1 is \<^verbatim>\<open>chats.update\<close>. Both
  are inside the \<^verbatim>\<open>try\<close>, so either failure runs the \<^verbatim>\<open>catch\<close> block.
  The whole handler is taken as one step: nothing else touches the component state between
  the optimistic append and the outcome of the store calls. The guard
  \<^verbatim>\<open>!selectedChatId\<close> holds for \<^verbatim>\<open>null\<close> and for the empty string.
\<close>

definition sendMessage ::
  "(nat \<Rightarrow> bool) \<Rightarrow> (nat \<Rightarrow> nat) \<Rightarrow> user option \<Rightarrow> string option \<Rightarrow> db \<times> chatArea \<Rightarrow> db \<times> chatArea" where
  "sendMessage fails clock currentUser selectedChatId s =
     (case s of (d, st) \<Rightarrow>
       (if trim (newMessage st) = [] then (d, st)
        else (case selectedChatId of None \<Rightarrow> (d, st) | Some cid \<Rightarrow>
             (if cid = [] then (d, st)
              else (case currentUser of None \<Rightarrow> (d, st) | Some u \<Rightarrow>
               (let messageId = ''msg_'' @ show_nat (clock 0);
                    now = clock 1;
                    st1 = st\<lparr>messages := messages st @ [optimisticMessage messageId cid u st now],
                             newMessage := [], replyToMessage := None\<rparr>
                in if fails 0 then (d, removeOptimistic messageId st1)
                   else (let d1 = d\<lparr>tbl_messages := tbl_messages d @ [sentRow messageId cid u st now]\<rparr>
                         in if fails 1 then (d1, removeOptimistic messageId st1)
                            else (touchChat cid now d1, st1))))))))"

text \<open>
  \<^verbatim>\<open>loadMessages\<close> (lines 136-185). Every store read of the reload is inside one
  \<^verbatim>\<open>try\<close> whose \<^verbatim>\<open>catch\<close> only logs; \<open>readFails\<close> says that one of them throws.
  \<^verbatim>\<open>orderBy: { createdAt: 'asc' }\<close> is a stable sort of the rows on \<^verbatim>\<open>createdAt\<close>
  (the store does not say how it orders equal keys).
  A JavaScript \<^verbatim>\<open>if (s)\<close> on an optional string holds when the string is present and
  not empty.
\<close>

definition truthy :: "string option \<Rightarrow> bool" where
  "truthy x = (case x of None \<Rightarrow> False | Some v \<Rightarrow> v \<noteq> [])"

definition resolveReply :: "db \<Rightarrow> message \<Rightarrow> localMessage option" where
  "resolveReply d m =
     (if truthy (msg_replyToMessageId m)
      then (case filter (\<lambda>r. Some (msg_id r) = msg_replyToMessageId m) (tbl_messages d) of
              [] \<Rightarrow> None
            | r # _ \<Rightarrow> Some (LocalMessage r (findUser d (msg_senderId r)) None))
      else None)"

definition withSender :: "db \<Rightarrow> message \<Rightarrow> localMessage" where
  "withSender d m = LocalMessage m (findUser d (msg_senderId m)) (resolveReply d m)"

definition loadMessages :: "bool \<Rightarrow> string option \<Rightarrow> db \<Rightarrow> chatArea \<Rightarrow> chatArea" where
  "loadMessages readFails selectedChatId d st =
     (case selectedChatId of
        None \<Rightarrow> st
      | Some cid \<Rightarrow>
          if cid = [] then st
          else if readFails then st\<lparr>area_log := area_log st @ [''Error loading messages:'']\<rparr>
          else st\<lparr>messages :=
                    map (withSender d)
                        (sort_key msg_createdAt (filter (\<lambda>m. msg_chatId m = cid) (tbl_messages d)))\<rparr>)"

text \<open>
  \<^verbatim>\<open>handleMessageAction\<close> (lines 385-410). The function closes over
  \<^verbatim>\<open>currentUser\<close> and never reads it. Store call 0 is the awaited
  \<^verbatim>\<open>messages.update\<close> or \<^verbatim>\<open>messages.delete\<close>; the function has no
  \<^verbatim>\<open>try\<close>, so when that call throws the rest of the handler is skipped and nothing
  is logged.
\<close>

definition setStarred :: "string \<Rightarrow> bool \<Rightarrow> db \<Rightarrow> db" where
  "setStarred mid b d =
     d\<lparr>tbl_messages := map (\<lambda>m. if msg_id m = mid then m\<lparr>msg_isStarred := b\<rparr> else m) (tbl_messages d)\<rparr>"

definition deleteMessage :: "string \<Rightarrow> db \<Rightarrow> db" where
  "deleteMessage mid d = d\<lparr>tbl_messages := filter (\<lambda>m. msg_id m \<noteq> mid) (tbl_messages d)\<rparr>"

definition handleMessageAction ::
  "(nat \<Rightarrow> bool) \<Rightarrow> bool \<Rightarrow> user option \<Rightarrow> string option \<Rightarrow> string \<Rightarrow> localMessage
     \<Rightarrow> db \<times> chatArea \<Rightarrow> db \<times> chatArea" where
  "handleMessageAction fails readFails currentUser selectedChatId action message s =
     (case s of (d, st) \<Rightarrow>
       (if action = ''reply'' then
          (d, st\<lparr>replyToMessage := Some message, selectedMessage := None\<rparr>)
        else if action = ''star'' then
          (if fails 0 then (d, st)
           else (let d1 = setStarred (msg_id (lm_fields message)) (\<not> msg_isStarred (lm_fields message)) d
                 in (d1, (loadMessages readFails selectedChatId d1 st)\<lparr>selectedMessage := None\<rparr>)))
        else if action = ''copy'' then
          (d, st\<lparr>clipboard := msg_content (lm_fields message), selectedMessage := None\<rparr>)
        else if action = ''delete'' then
          (if fails 0 then (d, st)
           else (let d1 = deleteMessage (msg_id (lm_fields message)) d
                 in (d1, (loadMessages readFails selectedChatId d1 st)\<lparr>selectedMessage := None\<rparr>)))
        else if action = ''download'' then
          (case msg_fileUrl (lm_fields message) of
             None \<Rightarrow> (d, st\<lparr>selectedMessage := None\<rparr>)
           | Some url \<Rightarrow>
               if url \<noteq> [] then (d, st\<lparr>openedWindows := openedWindows st @ [url], selectedMessage := None\<rparr>)
               else (d, st\<lparr>selectedMessage := None\<rparr>))
        else (d, st\<lparr>selectedMessage := None\<rparr>)))"

text \<open>
  The entries of a message's dropdown menu (lines 593-618), each of which calls
  \<^verbatim>\<open>handleMessageAction\<close> with its action name. The Delete entry is rendered under
  \<^verbatim>\<open>message.senderId === currentUser?.id\<close>.
\<close>

definition menuActions :: "user option \<Rightarrow> localMessage \<Rightarrow> string list" where
  "menuActions currentUser message =
     [''reply'', ''star'', ''copy'']
     @ (if truthy (msg_fileUrl (lm_fields message)) then [''download''] else [])
     @ (if Some (msg_senderId (lm_fields message)) = map_option user_id currentUser then [''delete''] else [])"


section \<open>ChatSidebar.tsx and the application shell: the conversation directory\<close>

text \<open>
  The state of the shell component (\<^verbatim>\<open>selectedChatId\<close>,
  \<^verbatim>\<open>showMobileSidebar\<close>) and of the sidebar's dialogs. The conversation that a
  directory operation resolves to is the one it selects.
\<close>

record shell =
  selectedChatId :: "string option"
  showMobileSidebar :: bool
  showNewChatDialog :: bool
  showNewGroupDialog :: bool
  selectedUsers :: "string list"
  groupName :: string
  shell_log :: "string list"

text \<open>\<^verbatim>\<open>handleChatSelect\<close> (lines 556-559 of the shell).\<close>

definition handleChatSelect :: "string \<Rightarrow> shell \<Rightarrow> shell" where
  "handleChatSelect chatId sh = sh\<lparr>selectedChatId := Some chatId, showMobileSidebar := False\<rparr>"

text \<open>
  \<^verbatim>\<open>handleNewChat\<close> (lines 561-599 of the shell). Clock reads: 0 the chat id, 1 and 2
  the chat's \<^verbatim>\<open>createdAt\<close> and \<^verbatim>\<open>updatedAt\<close>, 3 and 4 the two
  \<^verbatim>\<open>joinedAt\<close>. Store calls: 0 \<^verbatim>\<open>chats.create\<close>, 1 and 2 the two
  \<^verbatim>\<open>chatParticipants.create\<close>; a throw is caught and logged, and what was written
  before it stays written.
\<close>

definition handleNewChat ::
  "(nat \<Rightarrow> bool) \<Rightarrow> (nat \<Rightarrow> nat) \<Rightarrow> user option \<Rightarrow> string \<Rightarrow> db \<times> shell \<Rightarrow> db \<times> shell" where
  "handleNewChat fails clock currentUser userId s =
     (case s of (d, sh) \<Rightarrow>
       (case currentUser of
          None \<Rightarrow> (d, sh)
        | Some u \<Rightarrow>
           (let chatId = ''chat_'' @ show_nat (clock 0)
            in if fails 0 then (d, sh\<lparr>shell_log := shell_log sh @ [''Error creating new chat:'']\<rparr>)
               else (let d1 = d\<lparr>tbl_chats := tbl_chats d @
                                [\<lparr> chat_id = chatId, chat_name = None, chat_type = Individual,
                                    chat_avatarUrl = None, chat_createdBy = user_id u,
                                    chat_createdAt = clock 1, chat_updatedAt = clock 2,
                                    chat_lastMessageAt = 0 \<rparr>]\<rparr>
                     in if fails 1 then (d1, sh\<lparr>shell_log := shell_log sh @ [''Error creating new chat:'']\<rparr>)
                        else (let d2 = d1\<lparr>tbl_chatParticipants := tbl_chatParticipants d1 @
                                         [\<lparr> cp_id = ''cp_'' @ chatId @ ''_'' @ user_id u, cp_chatId = chatId,
                                             cp_userId = user_id u, cp_joinedAt = clock 3 \<rparr>]\<rparr>
                              in if fails 2
                                 then (d2, sh\<lparr>shell_log := shell_log sh @ [''Error creating new chat:'']\<rparr>)
                                 else (let d3 = d2\<lparr>tbl_chatParticipants := tbl_chatParticipants d2 @
                                                  [\<lparr> cp_id = ''cp_'' @ chatId @ ''_'' @ userId, cp_chatId = chatId,
                                                      cp_userId = userId, cp_joinedAt = clock 4 \<rparr>]\<rparr>
                                       in (d3, sh\<lparr>selectedChatId := Some chatId,
                                                  showMobileSidebar := False\<rparr>)))))))"

text \<open>
  The loop of \<^verbatim>\<open>handleStartChat\<close> (lines 276-292): for each membership row of the
  requester, in the order listed, one \<^verbatim>\<open>chatParticipants.list\<close> asks for the rows of
  that conversation that belong to \<^verbatim>\<open>userId\<close>; the first non-empty answer ends the
  loop. \<open>k\<close> is the number of the next store call.
\<close>

datatype lookup = Exists string | Absent | ListThrew

fun scanExisting ::
  "(nat \<Rightarrow> bool) \<Rightarrow> nat \<Rightarrow> chatParticipant list \<Rightarrow> string \<Rightarrow> chatParticipant list \<Rightarrow> lookup" where
  "scanExisting fails k tbl userId [] = Absent"
| "scanExisting fails k tbl userId (participant # rest) =
     (if fails k then ListThrew
      else if filter (\<lambda>q. cp_chatId q = cp_chatId participant \<and> cp_userId q = userId) tbl \<noteq> []
           then Exists (cp_chatId participant)
           else scanExisting fails (Suc k) tbl userId rest)"

text \<open>
  \<^verbatim>\<open>handleStartChat\<close> (lines 269-300 of the sidebar), with its two callbacks
  \<^verbatim>\<open>onChatSelect = handleChatSelect\<close> and \<^verbatim>\<open>onNewChat = handleNewChat\<close> as the
  shell passes them. Store call 0 lists the requester's memberships, calls 1, 2, ... are
  those of the loop, and the calls of \<^verbatim>\<open>handleNewChat\<close> follow. With no current user
  \<^verbatim>\<open>currentUser!.id\<close> throws inside the \<^verbatim>\<open>try\<close>.
\<close>

definition handleStartChat ::
  "(nat \<Rightarrow> bool) \<Rightarrow> (nat \<Rightarrow> nat) \<Rightarrow> user option \<Rightarrow> string \<Rightarrow> db \<times> shell \<Rightarrow> db \<times> shell" where
  "handleStartChat fails clock currentUser userId s =
     (case s of (d, sh) \<Rightarrow>
       (case currentUser of
          None \<Rightarrow> (d, sh\<lparr>shell_log := shell_log sh @ [''Error starting chat:'']\<rparr>)
        | Some u \<Rightarrow>
           if fails 0 then (d, sh\<lparr>shell_log := shell_log sh @ [''Error starting chat:'']\<rparr>)
           else (let existingChats = filter (\<lambda>p. cp_userId p = user_id u) (tbl_chatParticipants d)
                 in case scanExisting fails 1 (tbl_chatParticipants d) userId existingChats of
                      ListThrew \<Rightarrow> (d, sh\<lparr>shell_log := shell_log sh @ [''Error starting chat:'']\<rparr>)
                    | Exists chatId \<Rightarrow> (d, (handleChatSelect chatId sh)\<lparr>showNewChatDialog := False\<rparr>)
                    | Absent \<Rightarrow>
                        (case handleNewChat (\<lambda>k. fails (k + 1 + length existingChats)) clock
                                currentUser userId (d, sh) of
                           (d', sh') \<Rightarrow> (d', sh'\<lparr>showNewChatDialog := False\<rparr>)))))"

text \<open>
  \<^verbatim>\<open>handleCreateGroup\<close> (lines 302-368 of the sidebar). The member loop writes one
  \<^verbatim>\<open>groupMembers\<close> row and one \<^verbatim>\<open>chatParticipants\<close> row per member; \<open>k\<close>
  numbers the next store call and \<open>c\<close> the next clock read. A throw leaves what was
  written so far and skips the rest.
\<close>

datatype 'a attempt = Completed 'a | Threw 'a

fun addMembers ::
  "(nat \<Rightarrow> bool) \<Rightarrow> (nat \<Rightarrow> nat) \<Rightarrow> nat \<Rightarrow> nat \<Rightarrow> string \<Rightarrow> string \<Rightarrow> string \<Rightarrow> string list \<Rightarrow> db
     \<Rightarrow> db attempt" where
  "addMembers fails clock k c groupId chatId creatorId [] d = Completed d"
| "addMembers fails clock k c groupId chatId creatorId (userId # rest) d =
     (if fails k then Threw d
      else (let d1 = d\<lparr>tbl_groupMembers := tbl_groupMembers d @
                       [\<lparr> gm_id = ''gm_'' @ groupId @ ''_'' @ userId, gm_groupId = groupId,
                           gm_userId = userId,
                           gm_role = (if userId = creatorId then Admin else Member),
                           gm_joinedAt = clock c \<rparr>]\<rparr>
            in if fails (Suc k) then Threw d1
               else (let d2 = d1\<lparr>tbl_chatParticipants := tbl_chatParticipants d1 @
                                [\<lparr> cp_id = ''cp_'' @ chatId @ ''_'' @ userId, cp_chatId = chatId,
                                    cp_userId = userId, cp_joinedAt = clock (Suc c) \<rparr>]\<rparr>
                     in addMembers fails clock (k + 2) (c + 2) groupId chatId creatorId rest d2)))"

text \<open>
  Store calls: 0 \<^verbatim>\<open>groups.create\<close>, 1 \<^verbatim>\<open>chats.create\<close>, then two per member,
  then \<^verbatim>\<open>messages.create\<close>. Clock reads: 0 the group id, 1-2 and 3-5 the timestamps
  of the group and chat rows, two per member, then three for the welcome message. The
  guard of the first line returns without a word; every later failure, also the
  \<^verbatim>\<open>currentUser!.id\<close> of a missing user, ends in the \<^verbatim>\<open>catch\<close> block
  (\<open>groupFailed\<close>). The refresh of the sidebar's own chat list (\<^verbatim>\<open>loadChats()\<close>)
  only reads the store and is left out.
\<close>

definition groupFailed :: "shell \<Rightarrow> shell" where
  "groupFailed sh = sh\<lparr>shell_log := shell_log sh @ [''Error creating group:'']\<rparr>"

definition handleCreateGroup ::
  "(nat \<Rightarrow> bool) \<Rightarrow> (nat \<Rightarrow> nat) \<Rightarrow> user option \<Rightarrow> db \<times> shell \<Rightarrow> db \<times> shell" where
  "handleCreateGroup fails clock currentUser s =
     (case s of (d, sh) \<Rightarrow>
       (if trim (groupName sh) = [] \<or> selectedUsers sh = [] then (d, sh)
        else (case currentUser of
           None \<Rightarrow> (d, groupFailed sh)
         | Some u \<Rightarrow>
            (let groupId = ''group_'' @ show_nat (clock 0);
                 chatId = ''chat_'' @ groupId;
                 n = length (selectedUsers sh) + 1
             in if fails 0 then (d, groupFailed sh)
                else (let d1 = d\<lparr>tbl_groups := tbl_groups d @
                                 [\<lparr> grp_id = groupId, grp_name = groupName sh, grp_description = [],
                                     grp_createdBy = user_id u, grp_createdAt = clock 1,
                                     grp_updatedAt = clock 2 \<rparr>]\<rparr>
                      in if fails 1 then (d1, groupFailed sh)
                         else (let d2 = d1\<lparr>tbl_chats := tbl_chats d1 @
                                          [\<lparr> chat_id = chatId, chat_name = Some (groupName sh),
                                              chat_type = Group, chat_avatarUrl = None,
                                              chat_createdBy = user_id u, chat_createdAt = clock 3,
                                              chat_updatedAt = clock 4, chat_lastMessageAt = clock 5 \<rparr>]\<rparr>
                               in case addMembers fails clock 2 6 groupId chatId (user_id u)
                                         (user_id u # selectedUsers sh) d2 of
                                    Threw d3 \<Rightarrow> (d3, groupFailed sh)
                                  | Completed d3 \<Rightarrow>
                                     if fails (2 + 2 * n) then (d3, groupFailed sh)
                                     else (let d4 = d3\<lparr>tbl_messages := tbl_messages d3 @
                                                      [\<lparr> msg_id = ''msg_'' @ show_nat (clock (6 + 2 * n)),
                                                          msg_chatId = chatId, msg_senderId = user_id u,
                                                          msg_content = user_displayName u @ '' created group ''
                                                             @ [CHR 0x22] @ groupName sh @ [CHR 0x22],
                                                          msg_messageType = Text,
                                                          msg_fileUrl = None, msg_fileName = None,
                                                          msg_fileSize = None, msg_replyToMessageId = None,
                                                          msg_isForwarded = False, msg_isStarred = False,
                                                          msg_createdAt = clock (7 + 2 * n),
                                                          msg_updatedAt = Some (clock (8 + 2 * n)) \<rparr>]\<rparr>
                                           in (d4, handleChatSelect chatId
                                                     (sh\<lparr>showNewGroupDialog := False, groupName := [],
                                                         selectedUsers := []\<rparr>)))))))))"


section \<open>Stories.tsx: the story lifecycle\<close>

text \<open>
  A story as the component holds it: the stored fields plus the resolved author and the
  view rows, each with its resolved viewer.
\<close>

datatype localStory =
  LocalStory (ls_fields: story) (ls_user: "user option") (ls_views: "(storyView \<times> user option) list")

record fileObj =
  file_name :: string
  file_type :: string

record storiesState =
  stories :: "localStory list"
  myStories :: "localStory list"
  selectedStory :: "localStory option"
  currentStoryIndex :: nat
  showStoryViewer :: bool
  showAddStory :: bool
  storyCaption :: string
  selectedFile :: "fileObj option"
  storyProgress :: nat
  storyTimer :: "nat option"
  stories_log :: "string list"

definition withUserAndViews :: "db \<Rightarrow> story \<Rightarrow> localStory" where
  "withUserAndViews d st =
     LocalStory st (findUser d (story_userId st))
       (map (\<lambda>v. (v, findUser d (view_viewerId v)))
            (filter (\<lambda>v. view_storyId v = story_id st) (tbl_storyViews d)))"

text \<open>
  \<^verbatim>\<open>blink.db.stories.list({ where: { expiresAt: { gt: now } }, orderBy: { createdAt: 'desc' } })\<close>:
  the rows whose expiry is later than \<^verbatim>\<open>now\<close>, newest first (a stable descending
  sort; the store does not say how it orders equal keys).
\<close>

definition activeStories :: "db \<Rightarrow> nat \<Rightarrow> story list" where
  "activeStories d now =
     rev (sort_key story_createdAt (rev (filter (\<lambda>st. story_expiresAt st > now) (tbl_stories d))))"

text \<open>
  \<^verbatim>\<open>loadStories\<close> (lines 53-107). Clock read 0 is \<^verbatim>\<open>now\<close>. All store reads
  are inside one \<^verbatim>\<open>try\<close> whose \<^verbatim>\<open>catch\<close> only logs; \<open>readFails\<close> says that
  one of them throws.
\<close>

definition loadStories :: "bool \<Rightarrow> (nat \<Rightarrow> nat) \<Rightarrow> user option \<Rightarrow> db \<Rightarrow> storiesState \<Rightarrow> storiesState" where
  "loadStories readFails clock currentUser d ui =
     (case currentUser of
        None \<Rightarrow> ui
      | Some u \<Rightarrow>
         (let now = clock 0
          in if readFails then ui\<lparr>stories_log := stories_log ui @ [''Error loading stories:'']\<rparr>
             else (let storiesWithUsers = map (withUserAndViews d) (activeStories d now)
                   in ui\<lparr>myStories := filter (\<lambda>s. story_userId (ls_fields s) = user_id u) storiesWithUsers,
                         stories := filter (\<lambda>s. story_userId (ls_fields s) \<noteq> user_id u) storiesWithUsers\<rparr>)))"

text \<open>
  \<^verbatim>\<open>handleAddStory\<close> (lines 113-146). \<open>publicUrl\<close> is what the upload collaborator
  answers. Store call 0 is the upload, call 1 \<^verbatim>\<open>stories.create\<close>. Clock reads:
  0 in the upload key, 1 the story id, 2 \<^verbatim>\<open>now\<close>; the reload that follows reads the
  clock again (read 3).
\<close>

definition newStory :: "(nat \<Rightarrow> nat) \<Rightarrow> user \<Rightarrow> fileObj \<Rightarrow> string \<Rightarrow> string \<Rightarrow> story" where
  "newStory clock u f publicUrl caption =
     \<lparr> story_id = ''story_'' @ show_nat (clock 1), story_userId = user_id u,
       story_contentUrl = publicUrl,
       story_contentType = (if startsWith (file_type f) ''video/'' then VideoContent else ImageContent),
       story_caption = caption,
       story_createdAt = clock 2,
       story_expiresAt = clock 2 + 24 * 60 * 60 * 1000 \<rparr>"

definition handleAddStory ::
  "(nat \<Rightarrow> bool) \<Rightarrow> bool \<Rightarrow> (nat \<Rightarrow> nat) \<Rightarrow> string \<Rightarrow> user option \<Rightarrow> db \<times> storiesState \<Rightarrow> db \<times> storiesState" where
  "handleAddStory fails readFails clock publicUrl currentUser s =
     (case s of (d, ui) \<Rightarrow>
       (case selectedFile ui of
          None \<Rightarrow> (d, ui)
        | Some f \<Rightarrow>
           (case currentUser of
              None \<Rightarrow> (d, ui)
            | Some u \<Rightarrow>
               if fails 0 \<or> fails 1
               then (d, ui\<lparr>stories_log := stories_log ui @ [''Error adding story:'']\<rparr>)
               else (let d1 = d\<lparr>tbl_stories := tbl_stories d @ [newStory clock u f publicUrl (storyCaption ui)]\<rparr>
                     in (d1, loadStories readFails (\<lambda>k. clock (k + 3)) currentUser d1
                               (ui\<lparr>showAddStory := False, selectedFile := None, storyCaption := []\<rparr>))))))"


section \<open>Stories.tsx: the story viewer\<close>

text \<open>
  \<^verbatim>\<open>handleViewStory\<close> is an \<^verbatim>\<open>async\<close> function. For a story of another user it
  suspends at \<^verbatim>\<open>await blink.db.storyViews.list\<close> (line 158) and, when no view row
  exists, again at \<^verbatim>\<open>await blink.db.storyViews.create\<close> (line 168); the interval
  timer is started (line 181) only after these. Between a suspension and its resumption the
  event loop runs other handlers, so the model keeps the suspended calls in the state:

  \<^item> \<open>intervals\<close>: the interval timers that are active, each with its handle and the
    \<^verbatim>\<open>index\<close> and story lists that its callback closes over;
  \<^item> \<open>timerCount\<close>: the number of handles handed out (\<^verbatim>\<open>setInterval\<close> returns
    positive integers);
  \<^item> \<open>pending\<close>: the suspended calls of \<^verbatim>\<open>handleViewStory\<close>, each with the values
    its continuation closes over.
\<close>

record timer =
  t_handle :: nat
  t_index :: nat
  t_allStories :: "localStory list"

datatype cont =
    AwaitList string localStory nat "localStory list"
  | AwaitCreate storyView nat "localStory list"

record world =
  store :: db
  ui :: storiesState
  intervals :: "timer list"
  timerCount :: nat
  pending :: "cont list"

text \<open>\<^verbatim>\<open>xs[i]\<close>: \<^verbatim>\<open>undefined\<close> out of range.\<close>

definition at_index :: "'a list \<Rightarrow> nat \<Rightarrow> 'a option" where
  "at_index xs i = (if i < length xs then Some (xs ! i) else None)"

definition clearInterval :: "nat \<Rightarrow> world \<Rightarrow> world" where
  "clearInterval h w = w\<lparr>intervals := filter (\<lambda>t. t_handle t \<noteq> h) (intervals w)\<rparr>"

text \<open>
  Lines 181-198: \<^verbatim>\<open>const timer = setInterval(..., 100); setStoryTimer(timer)\<close>. \<open>all\<close>
  is \<^verbatim>\<open>[...myStories, ...stories]\<close> of the render whose \<^verbatim>\<open>handleViewStory\<close> is running.
\<close>

definition startTimer :: "nat \<Rightarrow> localStory list \<Rightarrow> world \<Rightarrow> world" where
  "startTimer index all w =
     (let h = Suc (timerCount w)
      in w\<lparr>intervals := intervals w @ [\<lparr>t_handle = h, t_index = index, t_allStories = all\<rparr>],
           timerCount := h,
           ui := (ui w)\<lparr>storyTimer := Some h\<rparr>\<rparr>)"

text \<open>
  \<^verbatim>\<open>handleViewStory\<close> up to its first suspension (lines 148-165). \<open>story\<close> is
  \<open>None\<close> when the caller indexed the list out of range: the four setters run and
  \<^verbatim>\<open>story.userId\<close> throws. With no current user the comparison with
  \<^verbatim>\<open>undefined\<close> holds and \<^verbatim>\<open>currentUser!.id\<close> throws inside the \<^verbatim>\<open>try\<close>, so
  the error is logged (\<open>viewFailed\<close>) and the timer is started at once.
\<close>

definition viewFailed :: "world \<Rightarrow> world" where
  "viewFailed w = w\<lparr>ui := (ui w)\<lparr>stories_log := stories_log (ui w) @ [''Error marking story as viewed:'']\<rparr>\<rparr>"

definition handleViewStory ::
  "user option \<Rightarrow> localStory list \<Rightarrow> localStory option \<Rightarrow> nat \<Rightarrow> world \<Rightarrow> world" where
  "handleViewStory currentUser all story index w =
     (let w1 = w\<lparr>ui := (ui w)\<lparr>selectedStory := story, currentStoryIndex := index,
                              showStoryViewer := True, storyProgress := 0\<rparr>\<rparr>
      in case story of
           None \<Rightarrow> w1
         | Some st \<Rightarrow>
            (case currentUser of
               None \<Rightarrow> startTimer index all (viewFailed w1)
             | Some u \<Rightarrow>
                if story_userId (ls_fields st) \<noteq> user_id u
                then w1\<lparr>pending := pending w1 @ [AwaitList (user_id u) st index all]\<rparr>
                else startTimer index all w1))"

text \<open>
  The resumption of the \<open>k\<close>-th suspended call: its awaited store call resolves
  (\<open>ok\<close>) or rejects. After the list (lines 167-174) a missing view row leads to the
  \<^verbatim>\<open>create\<close> and a second suspension; a rejection is caught and logged. In every
  other case the timer is started. Clock reads 0 and 1 are the two \<^verbatim>\<open>Date.now()\<close>
  of the new row.
\<close>

definition resume :: "(nat \<Rightarrow> nat) \<Rightarrow> nat \<Rightarrow> bool \<Rightarrow> world \<Rightarrow> world" where
  "resume clock k ok w =
     (case at_index (pending w) k of
        None \<Rightarrow> w
      | Some c \<Rightarrow>
         (let w1 = w\<lparr>pending := take k (pending w) @ drop (Suc k) (pending w)\<rparr>
          in case c of
               AwaitList viewerId st index all \<Rightarrow>
                 if \<not> ok then startTimer index all (viewFailed w1)
                 else if filter (\<lambda>v. view_storyId v = story_id (ls_fields st) \<and> view_viewerId v = viewerId)
                                (tbl_storyViews (store w1)) = []
                      then w1\<lparr>pending := pending w1 @
                                [AwaitCreate \<lparr> view_id = ''view_'' @ show_nat (clock 0),
                                               view_storyId = story_id (ls_fields st),
                                               view_viewerId = viewerId,
                                               view_viewedAt = clock 1 \<rparr> index all]\<rparr>
                      else startTimer index all w1
             | AwaitCreate row index all \<Rightarrow>
                 if ok
                 then startTimer index all
                        (w1\<lparr>store := (store w1)\<lparr>tbl_storyViews := tbl_storyViews (store w1) @ [row]\<rparr>\<rparr>)
                 else startTimer index all (viewFailed w1)))"

text \<open>
  One firing of the interval with handle \<open>h\<close> (lines 181-196); a cleared interval no
  longer fires. The auto-advance calls the \<^verbatim>\<open>handleViewStory\<close> of the same closure,
  and the updater's \<^verbatim>\<open>return 0\<close> sets the progress last.
\<close>

definition tick :: "user option \<Rightarrow> nat \<Rightarrow> world \<Rightarrow> world" where
  "tick currentUser h w =
     (case filter (\<lambda>t. t_handle t = h) (intervals w) of
        [] \<Rightarrow> w
      | t # _ \<Rightarrow>
         if storyProgress (ui w) \<ge> 100
         then (let w1 = clearInterval h w;
                   allStories = t_allStories t;
                   index = t_index t;
                   w2 = (if int index < int (length allStories) - 1
                         then handleViewStory currentUser allStories
                                (at_index allStories (index + 1)) (index + 1) w1
                         else w1\<lparr>ui := (ui w1)\<lparr>showStoryViewer := False\<rparr>\<rparr>)
               in w2\<lparr>ui := (ui w2)\<lparr>storyProgress := 0\<rparr>\<rparr>)
         else w\<lparr>ui := (ui w)\<lparr>storyProgress := storyProgress (ui w) + 2\<rparr>\<rparr>)"

text \<open>\<^verbatim>\<open>if (storyTimer) clearInterval(storyTimer)\<close>: a handle is truthy when it is not 0.\<close>

definition clearStoryTimer :: "world \<Rightarrow> world" where
  "clearStoryTimer w =
     (case storyTimer (ui w) of
        None \<Rightarrow> w
      | Some h \<Rightarrow> if h \<noteq> 0 then clearInterval h w else w)"

text \<open>\<^verbatim>\<open>closeStoryViewer\<close> (lines 201-209).\<close>

definition closeStoryViewer :: "world \<Rightarrow> world" where
  "closeStoryViewer w =
     (let w1 = (case storyTimer (ui w) of
                  None \<Rightarrow> w
                | Some h \<Rightarrow> if h \<noteq> 0 then (clearInterval h w)\<lparr>ui := (ui w)\<lparr>storyTimer := None\<rparr>\<rparr> else w)
      in w1\<lparr>ui := (ui w1)\<lparr>showStoryViewer := False, selectedStory := None, storyProgress := 0\<rparr>\<rparr>)"

text \<open>\<^verbatim>\<open>nextStory\<close> (lines 211-219) and \<^verbatim>\<open>prevStory\<close> (lines 221-227).\<close>

definition nextStory :: "user option \<Rightarrow> world \<Rightarrow> world" where
  "nextStory currentUser w =
     (let allStories = myStories (ui w) @ stories (ui w);
          i = currentStoryIndex (ui w)
      in if int i < int (length allStories) - 1
         then handleViewStory currentUser allStories (at_index allStories (i + 1)) (i + 1)
                (clearStoryTimer w)
         else closeStoryViewer w)"

definition prevStory :: "user option \<Rightarrow> world \<Rightarrow> world" where
  "prevStory currentUser w =
     (let allStories = myStories (ui w) @ stories (ui w);
          i = currentStoryIndex (ui w)
      in if i > 0
         then handleViewStory currentUser allStories (at_index allStories (i - 1)) (i - 1)
                (clearStoryTimer w)
         else w)"

text \<open>
  The two places that open the viewer: the user's own ring (line 256) and the ring of
  another author (line 288), which exists only for authors with a story in
  \<^verbatim>\<open>stories\<close>.
\<close>

definition findIndex :: "('a \<Rightarrow> bool) \<Rightarrow> 'a list \<Rightarrow> nat" where
  "findIndex P xs = length (takeWhile (\<lambda>x. \<not> P x) xs)"

definition openMine :: "user option \<Rightarrow> world \<Rightarrow> world" where
  "openMine currentUser w =
     (if myStories (ui w) \<noteq> []
      then handleViewStory currentUser (myStories (ui w) @ stories (ui w)) (at_index (myStories (ui w)) 0) 0 w
      else w\<lparr>ui := (ui w)\<lparr>showAddStory := True\<rparr>\<rparr>)"

definition openUser :: "user option \<Rightarrow> string \<Rightarrow> world \<Rightarrow> world" where
  "openUser currentUser userId w =
     (let userStories = filter (\<lambda>s. story_userId (ls_fields s) = userId) (stories (ui w))
      in if userStories = [] then w
         else handleViewStory currentUser (myStories (ui w) @ stories (ui w)) (at_index userStories 0)
                (length (myStories (ui w)) + findIndex (\<lambda>s. story_userId (ls_fields s) = userId) (stories (ui w)))
                w)"

text \<open>The events of the viewer and the step they cause.\<close>

datatype event =
    OpenMine
  | OpenUser string
  | Tick nat
  | Next
  | Prev
  | Close
  | Resume nat bool

fun step :: "user option \<Rightarrow> (nat \<Rightarrow> nat) \<Rightarrow> world \<Rightarrow> event \<Rightarrow> world" where
  "step cu clock w OpenMine = openMine cu w"
| "step cu clock w (OpenUser uid) = openUser cu uid w"
| "step cu clock w (Tick h) = tick cu h w"
| "step cu clock w Next = nextStory cu w"
| "step cu clock w Prev = prevStory cu w"
| "step cu clock w Close = closeStoryViewer w"
| "step cu clock w (Resume k ok) = resume clock k ok w"

definition run :: "user option \<Rightarrow> (nat \<Rightarrow> nat) \<Rightarrow> world \<Rightarrow> event list \<Rightarrow> world" where
  "run cu clock w es = foldl (step cu clock) w es"

text \<open>
  A call of \<^verbatim>\<open>handleViewStory\<close> that runs to its end before anything else happens:
  the call, then the resumption of each suspension it made, with the outcomes
  \<open>listOk\<close> and \<open>createOk\<close> of its two store calls. It is meant for a state with
  no other suspended call.
\<close>

definition viewStory ::
  "bool \<Rightarrow> bool \<Rightarrow> (nat \<Rightarrow> nat) \<Rightarrow> user option \<Rightarrow> localStory list \<Rightarrow> localStory \<Rightarrow> nat \<Rightarrow> world \<Rightarrow> world" where
  "viewStory listOk createOk clock currentUser all st index w =
     (let w1 = handleViewStory currentUser all (Some st) index w;
          w2 = (if pending w1 = [] then w1 else resume clock 0 listOk w1)
      in if pending w2 = [] then w2 else resume clock 0 createOk w2)"


section \<open>Auxiliary notions and sample data\<close>

text \<open>A store whose calls all succeed, one whose first call throws, and a clock that stands still.\<close>

definition noFault :: "nat \<Rightarrow> bool" where
  "noFault k = False"

definition firstCallFails :: "nat \<Rightarrow> bool" where
  "firstCallFails k = (k = 0)"

definition clockAt :: "nat \<Rightarrow> nat \<Rightarrow> nat" where
  "clockAt t k = t"

text \<open>
  The conversations of \<open>a\<close>, in the order in which the store lists \<open>a\<close>'s membership
  rows, in which \<open>b\<close> has a membership row too.
\<close>

definition sharedChats :: "chatParticipant list \<Rightarrow> string \<Rightarrow> string \<Rightarrow> string list" where
  "sharedChats tbl a b =
     map cp_chatId
       (filter (\<lambda>p. cp_userId p = a \<and> filter (\<lambda>q. cp_chatId q = cp_chatId p \<and> cp_userId q = b) tbl \<noteq> []) tbl)"

text \<open>The membership row that \<^verbatim>\<open>handleNewChat\<close> writes for a user.\<close>

definition participantRow :: "string \<Rightarrow> string \<Rightarrow> nat \<Rightarrow> chatParticipant" where
  "participantRow chatId userId t =
     \<lparr> cp_id = ''cp_'' @ chatId @ ''_'' @ userId, cp_chatId = chatId, cp_userId = userId, cp_joinedAt = t \<rparr>"

definition alice :: user where
  "alice = \<lparr> user_id = ''u_alice'', user_displayName = ''Alice'', user_email = ''alice@example.org'',
             user_avatarUrl = None, user_isOnline = True, user_lastSeen = 0 \<rparr>"

definition bob :: user where
  "bob = \<lparr> user_id = ''u_bob'', user_displayName = ''Bob'', user_email = ''bob@example.org'',
           user_avatarUrl = None, user_isOnline = True, user_lastSeen = 0 \<rparr>"

definition textRow :: "string \<Rightarrow> string \<Rightarrow> string \<Rightarrow> string \<Rightarrow> nat \<Rightarrow> message" where
  "textRow mid cid sid body t =
     \<lparr> msg_id = mid, msg_chatId = cid, msg_senderId = sid, msg_content = body, msg_messageType = Text,
       msg_fileUrl = None, msg_fileName = None, msg_fileSize = None, msg_replyToMessageId = None,
       msg_isForwarded = False, msg_isStarred = False, msg_createdAt = t, msg_updatedAt = Some t \<rparr>"

definition emptyDb :: db where
  "emptyDb = \<lparr> tbl_users = [], tbl_chats = [], tbl_chatParticipants = [], tbl_groups = [],
               tbl_groupMembers = [], tbl_messages = [], tbl_stories = [], tbl_storyViews = [] \<rparr>"

text \<open>A conversation \<open>c1\<close> holding one message that Alice sent at time 1000.\<close>

definition chatDb :: db where
  "chatDb = emptyDb\<lparr> tbl_users := [alice, bob],
                      tbl_messages := [textRow ''msg_1000'' ''c1'' ''u_alice'' ''hello'' 1000] \<rparr>"

definition aliceMsg :: localMessage where
  "aliceMsg = LocalMessage (textRow ''msg_1000'' ''c1'' ''u_alice'' ''hello'' 1000) (Some alice) None"

definition typing :: "localMessage list \<Rightarrow> string \<Rightarrow> chatArea" where
  "typing ms body = \<lparr> messages = ms, newMessage = body, replyToMessage = None, selectedMessage = None,
                      clipboard = [], openedWindows = [], area_log = [] \<rparr>"

definition groupDialog :: "string \<Rightarrow> string list \<Rightarrow> shell" where
  "groupDialog name members =
     \<lparr> selectedChatId = None, showMobileSidebar = True, showNewChatDialog = False,
       showNewGroupDialog = True, selectedUsers = members, groupName = name, shell_log = [] \<rparr>"

text \<open>Membership rows, group conversations and two stores used as examples.\<close>

definition memberRow :: "string \<Rightarrow> string \<Rightarrow> chatParticipant" where
  "memberRow chatId userId = participantRow chatId userId 0"

definition groupChat :: "string \<Rightarrow> string \<Rightarrow> chat" where
  "groupChat cid creator =
     \<lparr> chat_id = cid, chat_name = Some ''Team'', chat_type = Group, chat_avatarUrl = None,
       chat_createdBy = creator, chat_createdAt = 0, chat_updatedAt = 0, chat_lastMessageAt = 0 \<rparr>"

definition groupOnlyDb :: db where
  "groupOnlyDb = emptyDb\<lparr> tbl_chats := [groupChat ''chat_group_1'' ''u_alice''],
                           tbl_chatParticipants := [memberRow ''chat_group_1'' ''u_alice'',
                                                    memberRow ''chat_group_1'' ''u_bob''] \<rparr>"

text \<open>
  Two groups that both hold Alice and Bob, the first created by Alice and the second by
  Bob, whose membership rows the store lists interleaved.
\<close>

definition crossDb :: db where
  "crossDb = emptyDb\<lparr> tbl_chats := [groupChat ''chat_group_1'' ''u_alice'', groupChat ''chat_group_2'' ''u_bob''],
                       tbl_chatParticipants := [memberRow ''chat_group_1'' ''u_alice'',
                                                memberRow ''chat_group_2'' ''u_bob'',
                                                memberRow ''chat_group_2'' ''u_alice'',
                                                memberRow ''chat_group_1'' ''u_bob''] \<rparr>"

definition chatDialog :: shell where
  "chatDialog = \<lparr> selectedChatId = None, showMobileSidebar = True, showNewChatDialog = True,
                  showNewGroupDialog = False, selectedUsers = [], groupName = [], shell_log = [] \<rparr>"

text \<open>What \<^verbatim>\<open>handleStartChat\<close> does to the shell when it finds a conversation.\<close>

definition selectExisting :: "string \<Rightarrow> shell \<Rightarrow> shell" where
  "selectExisting c sh = sh\<lparr>selectedChatId := Some c, showMobileSidebar := False, showNewChatDialog := False\<rparr>"

text \<open>The stored fields of the stories that \<^verbatim>\<open>loadStories\<close> put on display, own stories first.\<close>

definition listed :: "storiesState \<Rightarrow> story list" where
  "listed vs = map ls_fields (myStories vs @ stories vs)"

text \<open>The view rows of a story that belong to a viewer.\<close>

definition viewsOf :: "db \<Rightarrow> localStory \<Rightarrow> user \<Rightarrow> storyView list" where
  "viewsOf d st u =
     filter (\<lambda>v. view_storyId v = story_id (ls_fields st) \<and> view_viewerId v = user_id u) (tbl_storyViews d)"

text \<open>Sample stories: two of Alice, three of Bob; a viewer that is closed; a picture to publish.\<close>

definition storyRow :: "string \<Rightarrow> string \<Rightarrow> nat \<Rightarrow> story" where
  "storyRow sid uid t =
     \<lparr> story_id = sid, story_userId = uid, story_contentUrl = ''https://cdn.example/'' @ sid,
       story_contentType = ImageContent, story_caption = [], story_createdAt = t,
       story_expiresAt = t + 24 * 60 * 60 * 1000 \<rparr>"

definition closedViewer :: "localStory list \<Rightarrow> localStory list \<Rightarrow> storiesState" where
  "closedViewer mine others =
     \<lparr> stories = others, myStories = mine, selectedStory = None, currentStoryIndex = 0,
       showStoryViewer = False, showAddStory = False, storyCaption = [], selectedFile = None,
       storyProgress = 0, storyTimer = None, stories_log = [] \<rparr>"

definition closedWorld :: "db \<Rightarrow> localStory list \<Rightarrow> localStory list \<Rightarrow> world" where
  "closedWorld d mine others =
     \<lparr> store = d, ui = closedViewer mine others, intervals = [], timerCount = 0, pending = [] \<rparr>"

definition shown :: "story \<Rightarrow> localStory" where
  "shown st = LocalStory st None []"

definition aliceStory1 :: localStory where "aliceStory1 = shown (storyRow ''story_1'' ''u_alice'' 1000)"
definition aliceStory2 :: localStory where "aliceStory2 = shown (storyRow ''story_2'' ''u_alice'' 2000)"
definition bobStory1 :: localStory where "bobStory1 = shown (storyRow ''story_3'' ''u_bob'' 3000)"
definition bobStory2 :: localStory where "bobStory2 = shown (storyRow ''story_4'' ''u_bob'' 4000)"
definition bobStory3 :: localStory where "bobStory3 = shown (storyRow ''story_5'' ''u_bob'' 5000)"

definition picture :: fileObj where
  "picture = \<lparr> file_name = ''sunset.png'', file_type = ''image/png'' \<rparr>"


text \<open>Alice has opened her own first story: the viewer plays it from progress 0.\<close>

definition playing :: "localStory list \<Rightarrow> world" where
  "playing mine = openMine (Some alice) (closedWorld emptyDb mine [])"

text \<open>
  Alice has opened Bob's stories and both store calls of that
  \<^verbatim>\<open>handleViewStory\<close> have returned: the viewer plays Bob's first story.
\<close>

definition watching :: world where
  "watching = run (Some alice) (clockAt 6000) (closedWorld emptyDb [] [bobStory1, bobStory2, bobStory3])
                [OpenUser ''u_bob'', Resume 0 True, Resume 0 True]"

text \<open>
  A state in which no call of \<^verbatim>\<open>handleViewStory\<close> is suspended and the only interval
  that may be active is the one that \<^verbatim>\<open>storyTimer\<close> holds.
\<close>

definition settled :: "world \<Rightarrow> bool" where
  "settled w =
     (pending w = [] \<and>
      (case intervals w of
         [] \<Rightarrow> True
       | t # ts \<Rightarrow> ts = [] \<and> t_handle t \<noteq> 0 \<and> storyTimer (ui w) = Some (t_handle t)))"



section \<open>Properties of the message pipeline\<close>

lemma show_nat_1000: "show_nat 1000 = ''1000''"
  by code_simp

text \<open>
  C2. A send that passes the guard and whose two store calls succeed leaves the local
  sequence equal to the prior sequence followed by the one new message, and the
  \<^verbatim>\<open>messages\<close> collection equal to its prior rows followed by the one new row.
\<close>

theorem sendMessage_appends_one:
  assumes "trim (newMessage st) \<noteq> []" and "cid \<noteq> []" and "\<not> fails 0" and "\<not> fails 1"
  shows "messages (snd (sendMessage fails clock (Some u) (Some cid) (d, st)))
           = messages st @ [optimisticMessage (''msg_'' @ show_nat (clock 0)) cid u st (clock 1)]
       \<and> tbl_messages (fst (sendMessage fails clock (Some u) (Some cid) (d, st)))
           = tbl_messages d @ [sentRow (''msg_'' @ show_nat (clock 0)) cid u st (clock 1)]"
  using assms by (simp add: sendMessage_def Let_def touchChat_def)

theorem sendMessage_appends_one_witness:
  "trim (newMessage (typing [aliceMsg] ''hi'')) \<noteq> [] \<and> ''c1'' \<noteq> [] \<and> \<not> noFault 0 \<and> \<not> noFault 1
   \<and> messages (snd (sendMessage noFault (clockAt 2000) (Some bob) (Some ''c1'') (chatDb, typing [aliceMsg] ''hi'')))
       = [aliceMsg, optimisticMessage (''msg_'' @ show_nat 2000) ''c1'' bob (typing [aliceMsg] ''hi'') 2000]"
  using sendMessage_appends_one [of "typing [aliceMsg] ''hi''" "''c1''" noFault "clockAt 2000" bob chatDb]
  by (simp add: typing_def noFault_def clockAt_def trim_def isWhiteSpace_def)

text \<open>
  When a store call of the send throws and no message of the prior sequence carries the
  id of the new message, the rollback restores the prior sequence.
\<close>

lemma sendMessage_rollback_fresh:
  assumes "fails 0 \<or> fails 1"
    and "\<forall>m \<in> set (messages st). msg_id (lm_fields m) \<noteq> ''msg_'' @ show_nat (clock 0)"
  shows "messages (snd (sendMessage fails clock cu sel (d, st))) = messages st"
  using assms
  by (auto simp: sendMessage_def Let_def removeOptimistic_def optimisticMessage_def filter_id_conv
           split: option.splits)

text \<open>
  C3. The rollback filters the local sequence on the id \<^verbatim>\<open>`msg_${Date.now()}`\<close>, so it
  also removes a message that was there before the send and carries the same id. Here the
  local sequence holds Alice's message \<open>msg_1000\<close>, Bob sends while his clock reads 1000,
  and the \<^verbatim>\<open>create\<close> throws: the sequence ends up empty instead of holding Alice's
  message.
\<close>

theorem sendMessage_rollback_drops_same_id:
  "messages (typing [aliceMsg] ''hi'') = [aliceMsg]
   \<and> firstCallFails 0
   \<and> messages (snd (sendMessage firstCallFails (clockAt 1000) (Some bob) (Some ''c1'')
                      (chatDb, typing [aliceMsg] ''hi''))) = []"
  by (simp add: sendMessage_def Let_def removeOptimistic_def optimisticMessage_def typing_def
        firstCallFails_def clockAt_def trim_def isWhiteSpace_def show_nat_1000 aliceMsg_def textRow_def)

text \<open>
  C4, as stated: a user who is not the sender cannot delete. The handler does not look at
  the acting user: invoked in Bob's session on Alice's message it deletes the row and the
  message leaves the reloaded sequence.
\<close>

theorem delete_unchecked_in_handler:
  "user_id bob \<noteq> msg_senderId (lm_fields aliceMsg)
   \<and> tbl_messages chatDb \<noteq> []
   \<and> tbl_messages (fst (handleMessageAction noFault False (Some bob) (Some ''c1'') ''delete'' aliceMsg
                          (chatDb, typing [aliceMsg] []))) = []
   \<and> messages (snd (handleMessageAction noFault False (Some bob) (Some ''c1'') ''delete'' aliceMsg
                          (chatDb, typing [aliceMsg] []))) = []"
  by (simp add: handleMessageAction_def deleteMessage_def loadMessages_def noFault_def chatDb_def
        emptyDb_def aliceMsg_def textRow_def bob_def typing_def)

text \<open>
  C4, amended. The menu of a message offers Delete exactly when the current user is the
  message's sender. The handler itself, whoever invokes it, issues the durable delete; when
  that and the reload succeed (a conversation being selected), no row and no message of the
  reloaded sequence carries the id of the deleted message.
\<close>

theorem delete_offered_to_sender_only:
  assumes "cid \<noteq> []"
  shows "(''delete'' \<in> set (menuActions cu m)) = (map_option user_id cu = Some (msg_senderId (lm_fields m)))
   \<and> fst (handleMessageAction noFault False cu (Some cid) ''delete'' m (d, st))
       = deleteMessage (msg_id (lm_fields m)) d
   \<and> msg_id (lm_fields m) \<notin> msg_id ` set (tbl_messages (deleteMessage (msg_id (lm_fields m)) d))
   \<and> msg_id (lm_fields m) \<notin>
       (\<lambda>x. msg_id (lm_fields x)) ` set (messages (snd (handleMessageAction noFault False cu (Some cid) ''delete'' m (d, st))))"
proof (intro conjI)
  show "(''delete'' \<in> set (menuActions cu m)) = (map_option user_id cu = Some (msg_senderId (lm_fields m)))"
    by (cases cu) (auto simp: menuActions_def)
  show "fst (handleMessageAction noFault False cu (Some cid) ''delete'' m (d, st))
       = deleteMessage (msg_id (lm_fields m)) d"
    by (simp add: handleMessageAction_def Let_def noFault_def)
  show "msg_id (lm_fields m) \<notin> msg_id ` set (tbl_messages (deleteMessage (msg_id (lm_fields m)) d))"
    by (auto simp: deleteMessage_def)
  show "msg_id (lm_fields m) \<notin>
       (\<lambda>x. msg_id (lm_fields x)) ` set (messages (snd (handleMessageAction noFault False cu (Some cid) ''delete'' m (d, st))))"
    using assms
    by (auto simp: handleMessageAction_def Let_def noFault_def loadMessages_def deleteMessage_def withSender_def)
qed

theorem delete_offered_to_sender_only_witness:
  "''c1'' \<noteq> []
   \<and> ''delete'' \<in> set (menuActions (Some alice) aliceMsg)
   \<and> ''delete'' \<notin> set (menuActions (Some bob) aliceMsg)
   \<and> tbl_messages (fst (handleMessageAction noFault False (Some alice) (Some ''c1'') ''delete'' aliceMsg
                          (chatDb, typing [aliceMsg] []))) = []"
proof -
  have c: "''c1'' \<noteq> []" by simp
  from delete_offered_to_sender_only [OF c, of "Some alice" aliceMsg chatDb "typing [aliceMsg] []"]
       delete_offered_to_sender_only [OF c, of "Some bob" aliceMsg chatDb "typing [aliceMsg] []"]
  show ?thesis
    by (simp add: alice_def bob_def aliceMsg_def textRow_def deleteMessage_def chatDb_def emptyDb_def)
qed


section \<open>Properties of the conversation directory\<close>

text \<open>
  C5, as stated: an empty name or an empty member list fails with a validation error that
  is surfaced at once. The guard of \<^verbatim>\<open>handleCreateGroup\<close> is a bare
  \<^verbatim>\<open>return\<close>: with a blank name, and likewise with no member selected, nothing is
  logged and the dialog stays as it was. The only report the handler ever makes is the
  \<^verbatim>\<open>console.error\<close> of its \<^verbatim>\<open>catch\<close> block, reached when a store call throws
  on valid input.
\<close>

theorem handleCreateGroup_rejects_silently:
  "trim (groupName (groupDialog ''  '' [''u_bob''])) = []
   \<and> shell_log (snd (handleCreateGroup noFault (clockAt 5) (Some alice)
                       (emptyDb, groupDialog ''  '' [''u_bob'']))) = []
   \<and> showNewGroupDialog (snd (handleCreateGroup noFault (clockAt 5) (Some alice)
                       (emptyDb, groupDialog ''  '' [''u_bob''])))
   \<and> selectedUsers (groupDialog ''Team'' []) = []
   \<and> shell_log (snd (handleCreateGroup noFault (clockAt 5) (Some alice)
                       (emptyDb, groupDialog ''Team'' []))) = []
   \<and> shell_log (snd (handleCreateGroup firstCallFails (clockAt 5) (Some alice)
                       (emptyDb, groupDialog ''Team'' [''u_bob'']))) = [''Error creating group:'']"
  by (simp add: handleCreateGroup_def groupFailed_def groupDialog_def trim_def isWhiteSpace_def
        firstCallFails_def Let_def)

text \<open>
  C5, amended. With a group name that is empty after trimming, or with no member selected,
  \<^verbatim>\<open>handleCreateGroup\<close> returns at its first line without raising or reporting
  anything: the store and the component state (dialog, inputs, selection, error log) are
  what they were, whatever the store would have answered, since no store call is made.
\<close>

theorem handleCreateGroup_rejects_invalid:
  assumes "trim (groupName sh) = [] \<or> selectedUsers sh = []"
  shows "handleCreateGroup fails clock cu (d, sh) = (d, sh)
       \<and> shell_log (snd (handleCreateGroup fails clock cu (d, sh))) = shell_log sh"
  using assms by (simp add: handleCreateGroup_def)

theorem handleCreateGroup_rejects_invalid_witness:
  "trim (groupName (groupDialog ''  '' [''u_bob''])) = []
   \<and> handleCreateGroup noFault (clockAt 5) (Some alice) (emptyDb, groupDialog ''  '' [''u_bob''])
       = (emptyDb, groupDialog ''  '' [''u_bob''])
   \<and> selectedUsers (groupDialog ''Team'' []) = []
   \<and> handleCreateGroup noFault (clockAt 5) (Some alice) (emptyDb, groupDialog ''Team'' [])
       = (emptyDb, groupDialog ''Team'' [])"
  using handleCreateGroup_rejects_invalid [of "groupDialog ''  '' [''u_bob'']" noFault "clockAt 5" "Some alice" emptyDb]
        handleCreateGroup_rejects_invalid [of "groupDialog ''Team'' []" noFault "clockAt 5" "Some alice" emptyDb]
  by (simp add: groupDialog_def trim_def isWhiteSpace_def)

text \<open>With a store that answers every call, the loop returns the first shared conversation.\<close>

lemma scanExisting_noFault:
  "scanExisting noFault k tbl b ps =
     (case filter (\<lambda>p. filter (\<lambda>q. cp_chatId q = cp_chatId p \<and> cp_userId q = b) tbl \<noteq> []) ps of
        [] \<Rightarrow> Absent | p # _ \<Rightarrow> Exists (cp_chatId p))"
  by (induction ps arbitrary: k) (auto simp: noFault_def)

lemma scanExisting_shared:
  "scanExisting noFault k tbl b (filter (\<lambda>p. cp_userId p = a) tbl) =
     (case sharedChats tbl a b of [] \<Rightarrow> Absent | c # _ \<Rightarrow> Exists c)"
  by (simp add: scanExisting_noFault sharedChats_def split: list.splits)

lemma set_sharedChats:
  "set (sharedChats tbl a b) =
     {c. (\<exists>p \<in> set tbl. cp_chatId p = c \<and> cp_userId p = a) \<and> (\<exists>q \<in> set tbl. cp_chatId q = c \<and> cp_userId q = b)}"
  by (auto simp: sharedChats_def filter_empty_conv)

lemma set_sharedChats_sym: "set (sharedChats tbl a b) = set (sharedChats tbl b a)"
  by (auto simp: set_sharedChats)

lemma handleStartChat_existing:
  assumes "sharedChats (tbl_chatParticipants d) (user_id u) b = c # cs"
  shows "handleStartChat noFault clock (Some u) b (d, sh) = (d, selectExisting c sh)"
proof -
  have "\<not> noFault 0" by (simp add: noFault_def)
  then show ?thesis using assms
    by (simp add: handleStartChat_def Let_def scanExisting_shared handleChatSelect_def selectExisting_def)
qed

lemma handleStartChat_only:
  assumes "set (sharedChats (tbl_chatParticipants d) (user_id u) b) = {c}"
  shows "handleStartChat noFault clock (Some u) b (d, sh) = (d, selectExisting c sh)"
proof (cases "sharedChats (tbl_chatParticipants d) (user_id u) b")
  case Nil
  with assms show ?thesis by simp
next
  case (Cons c' cs)
  with assms have "c' = c" by auto
  with Cons show ?thesis by (simp add: handleStartChat_existing)
qed

lemma handleStartChat_new:
  assumes "sharedChats (tbl_chatParticipants d) (user_id u) b = []"
  shows "tbl_chatParticipants (fst (handleStartChat noFault clock (Some u) b (d, sh)))
           = tbl_chatParticipants d @ [participantRow (''chat_'' @ show_nat (clock 0)) (user_id u) (clock 3),
                                       participantRow (''chat_'' @ show_nat (clock 0)) b (clock 4)]
       \<and> selectedChatId (snd (handleStartChat noFault clock (Some u) b (d, sh)))
           = Some (''chat_'' @ show_nat (clock 0))"
proof -
  have "\<not> noFault k" for k by (simp add: noFault_def)
  then show ?thesis using assms
    by (simp add: handleStartChat_def handleNewChat_def Let_def scanExisting_shared participantRow_def)
qed

lemma shared_after_new:
  assumes "set (sharedChats tbl a b) = {}"
  shows "set (sharedChats (tbl @ [participantRow n a s, participantRow n b t]) a b) = {n}"
proof -
  from assms have none: "\<And>p q. p \<in> set tbl \<Longrightarrow> q \<in> set tbl \<Longrightarrow> cp_userId p = a \<Longrightarrow> cp_userId q = b
      \<Longrightarrow> cp_chatId p \<noteq> cp_chatId q"
    by (auto simp: set_sharedChats)
  show ?thesis
    unfolding set_sharedChats
    by (auto simp: participantRow_def dest: none)
qed

lemma at_most_one:
  assumes "length (remdups xs) \<le> 1" and "xs = c # cs"
  shows "set xs = {c}"
proof -
  have "card (set xs) \<le> 1" using assms(1) by (simp add: length_remdups_card_conv)
  moreover have "c \<in> set xs" using assms(2) by simp
  ultimately show ?thesis
    by (metis List.finite_set card_le_Suc0_iff_eq One_nat_def empty_iff insertI1 subsetI subset_singletonD)
qed

text \<open>
  C1, amended. When the two users share at most one conversation before the calls, the
  calls \<open>(A, B)\<close>, \<open>(B, A)\<close> and \<open>(A, B)\<close> again, made one after the other with a
  store that answers every call, select the same conversation, and the second and third
  call write nothing. The first call selects the first conversation of A's membership rows
  in which B has a row and writes nothing; when there is none it appends the membership
  rows of a new conversation, the requester's first.
\<close>

theorem handleStartChat_same_conversation:
  assumes one: "length (remdups (sharedChats (tbl_chatParticipants d) (user_id ua) (user_id ub))) \<le> 1"
    and ra: "ra = handleStartChat noFault clockA (Some ua) (user_id ub) (d, shA)"
    and rb: "rb = handleStartChat noFault clockB (Some ub) (user_id ua) (fst ra, shB)"
    and rc: "rc = handleStartChat noFault clockC (Some ua) (user_id ub) (fst rb, snd ra)"
  shows "selectedChatId (snd ra) \<noteq> None
       \<and> selectedChatId (snd rb) = selectedChatId (snd ra)
       \<and> selectedChatId (snd rc) = selectedChatId (snd ra)
       \<and> fst rb = fst ra \<and> fst rc = fst ra
       \<and> (case sharedChats (tbl_chatParticipants d) (user_id ua) (user_id ub) of
            [] \<Rightarrow> tbl_chatParticipants (fst ra) =
                    tbl_chatParticipants d @
                      [participantRow (''chat_'' @ show_nat (clockA 0)) (user_id ua) (clockA 3),
                       participantRow (''chat_'' @ show_nat (clockA 0)) (user_id ub) (clockA 4)]
          | c # _ \<Rightarrow> fst ra = d \<and> selectedChatId (snd ra) = Some c)"
proof (cases "sharedChats (tbl_chatParticipants d) (user_id ua) (user_id ub)")
  case Nil
  define n where "n = ''chat_'' @ show_nat (clockA 0)"
  from handleStartChat_new [OF Nil, of clockA shA]
  have tblA: "tbl_chatParticipants (fst ra) =
                tbl_chatParticipants d @ [participantRow n (user_id ua) (clockA 3),
                                          participantRow n (user_id ub) (clockA 4)]"
    and selA: "selectedChatId (snd ra) = Some n"
    by (simp_all add: ra n_def)
  from Nil have "set (sharedChats (tbl_chatParticipants d) (user_id ua) (user_id ub)) = {}" by simp
  then have ab: "set (sharedChats (tbl_chatParticipants (fst ra)) (user_id ua) (user_id ub)) = {n}"
    unfolding tblA by (rule shared_after_new)
  then have ba: "set (sharedChats (tbl_chatParticipants (fst ra)) (user_id ub) (user_id ua)) = {n}"
    by (simp add: set_sharedChats_sym)
  have eb: "rb = (fst ra, selectExisting n shB)"
    unfolding rb by (rule handleStartChat_only [OF ba])
  then have fb: "fst rb = fst ra" by simp
  have ec: "rc = (fst ra, selectExisting n (snd ra))"
    unfolding rc fb by (rule handleStartChat_only [OF ab])
  show ?thesis using Nil tblA selA eb ec by (simp add: selectExisting_def n_def)
next
  case (Cons c cs)
  from at_most_one [OF one Cons]
  have ab: "set (sharedChats (tbl_chatParticipants d) (user_id ua) (user_id ub)) = {c}" .
  then have ba: "set (sharedChats (tbl_chatParticipants d) (user_id ub) (user_id ua)) = {c}"
    by (simp add: set_sharedChats_sym)
  have ea: "ra = (d, selectExisting c shA)"
    unfolding ra by (rule handleStartChat_only [OF ab])
  have eb: "rb = (d, selectExisting c shB)"
    unfolding rb ea fst_conv by (rule handleStartChat_only [OF ba])
  have ec: "rc = (d, selectExisting c (snd ra))"
    unfolding rc eb fst_conv by (rule handleStartChat_only [OF ab])
  show ?thesis using Cons ea eb ec by (simp add: selectExisting_def)
qed

theorem handleStartChat_same_conversation_witness:
  "length (remdups (sharedChats (tbl_chatParticipants emptyDb) (user_id alice) (user_id bob))) \<le> 1
   \<and> selectedChatId (snd (handleStartChat noFault (clockAt 1000) (Some alice) (user_id bob) (emptyDb, chatDialog)))
       = Some ''chat_1000''
   \<and> selectedChatId (snd (handleStartChat noFault (clockAt 2000) (Some bob) (user_id alice)
        (fst (handleStartChat noFault (clockAt 1000) (Some alice) (user_id bob) (emptyDb, chatDialog)), chatDialog)))
       = Some ''chat_1000''"
proof -
  have e: "sharedChats (tbl_chatParticipants emptyDb) (user_id alice) (user_id bob) = []"
    by (simp add: sharedChats_def emptyDb_def)
  have h: "length (remdups (sharedChats (tbl_chatParticipants emptyDb) (user_id alice) (user_id bob))) \<le> 1"
    by (simp add: e)
  have s1: "selectedChatId (snd (handleStartChat noFault (clockAt 1000) (Some alice) (user_id bob) (emptyDb, chatDialog)))
              = Some ''chat_1000''"
    using handleStartChat_new [OF e, of "clockAt 1000" chatDialog] by (simp add: clockAt_def show_nat_1000)
  from handleStartChat_same_conversation
         [where clockA = "clockAt 1000" and shA = chatDialog and clockB = "clockAt 2000" and shB = chatDialog
            and clockC = "clockAt 3000", OF h refl refl refl]
  show ?thesis using h s1 by simp
qed

text \<open>
  C1, as stated: the two directions return the same conversation for any two users. In
  \<open>crossDb\<close> Alice and Bob share two conversations and the store lists Alice's rows in
  the order group 1, group 2 and Bob's in the order group 2, group 1. Alice's call selects
  group 1 and writes nothing; Bob's call, made next, selects group 2.
\<close>

theorem handleStartChat_direction_matters:
  "fst (handleStartChat noFault (clockAt 9000) (Some alice) (user_id bob) (crossDb, chatDialog)) = crossDb
   \<and> selectedChatId (snd (handleStartChat noFault (clockAt 9000) (Some alice) (user_id bob) (crossDb, chatDialog)))
       = Some ''chat_group_1''
   \<and> selectedChatId (snd (handleStartChat noFault (clockAt 9001) (Some bob) (user_id alice)
        (fst (handleStartChat noFault (clockAt 9000) (Some alice) (user_id bob) (crossDb, chatDialog)), chatDialog)))
       = Some ''chat_group_2''"
proof -
  have a: "sharedChats (tbl_chatParticipants crossDb) (user_id alice) (user_id bob) = [''chat_group_1'', ''chat_group_2'']"
    by (simp add: sharedChats_def crossDb_def emptyDb_def memberRow_def participantRow_def alice_def bob_def)
  have b: "sharedChats (tbl_chatParticipants crossDb) (user_id bob) (user_id alice) = [''chat_group_2'', ''chat_group_1'']"
    by (simp add: sharedChats_def crossDb_def emptyDb_def memberRow_def participantRow_def alice_def bob_def)
  show ?thesis
    by (simp add: handleStartChat_existing [OF a] handleStartChat_existing [OF b] selectExisting_def)
qed

text \<open>
  C10. When the requester and the other user both have a membership row in some
  conversation, \<^verbatim>\<open>handleStartChat\<close> (with a store that answers every call) selects a
  conversation in which both have a row and leaves the store as it was. The
  \<^verbatim>\<open>chats\<close> collection, which holds the kinds, is never read: the outcome is the same
  for every content \<open>kinds\<close> of it.
\<close>

theorem handleStartChat_reuses_any_shared:
  assumes "p \<in> set (tbl_chatParticipants d)" and "q \<in> set (tbl_chatParticipants d)"
    and "cp_userId p = user_id u" and "cp_userId q = userId" and "cp_chatId p = cp_chatId q"
  shows "\<exists>c. handleStartChat noFault clock (Some u) userId (d\<lparr>tbl_chats := kinds\<rparr>, sh)
               = (d\<lparr>tbl_chats := kinds\<rparr>,
                  sh\<lparr>selectedChatId := Some c, showMobileSidebar := False, showNewChatDialog := False\<rparr>)
             \<and> c \<in> set (sharedChats (tbl_chatParticipants d) (user_id u) userId)"
proof -
  have "cp_chatId p \<in> set (sharedChats (tbl_chatParticipants d) (user_id u) userId)"
    using assms by (auto simp: set_sharedChats)
  then obtain c cs where sc: "sharedChats (tbl_chatParticipants d) (user_id u) userId = c # cs"
    by (cases "sharedChats (tbl_chatParticipants d) (user_id u) userId") auto
  then have "sharedChats (tbl_chatParticipants (d\<lparr>tbl_chats := kinds\<rparr>)) (user_id u) userId = c # cs"
    by simp
  from handleStartChat_existing [OF this, of clock sh] sc show ?thesis
    by (auto simp: selectExisting_def)
qed

theorem handleStartChat_reuses_any_shared_witness:
  "memberRow ''chat_group_1'' ''u_alice'' \<in> set (tbl_chatParticipants groupOnlyDb)
   \<and> memberRow ''chat_group_1'' ''u_bob'' \<in> set (tbl_chatParticipants groupOnlyDb)
   \<and> filter (\<lambda>c. chat_type c = Individual) (tbl_chats groupOnlyDb) = []
   \<and> handleStartChat noFault (clockAt 9000) (Some alice) ''u_bob'' (groupOnlyDb, chatDialog)
       = (groupOnlyDb, chatDialog\<lparr>selectedChatId := Some ''chat_group_1'', showMobileSidebar := False,
                                   showNewChatDialog := False\<rparr>)"
proof -
  have p: "memberRow ''chat_group_1'' ''u_alice'' \<in> set (tbl_chatParticipants groupOnlyDb)"
    and q: "memberRow ''chat_group_1'' ''u_bob'' \<in> set (tbl_chatParticipants groupOnlyDb)"
    by (simp_all add: groupOnlyDb_def emptyDb_def)
  have pa: "cp_userId (memberRow ''chat_group_1'' ''u_alice'') = user_id alice"
    and qb: "cp_userId (memberRow ''chat_group_1'' ''u_bob'') = ''u_bob''"
    and pq: "cp_chatId (memberRow ''chat_group_1'' ''u_alice'') = cp_chatId (memberRow ''chat_group_1'' ''u_bob'')"
    by (simp_all add: memberRow_def participantRow_def alice_def)
  have kinds: "filter (\<lambda>c. chat_type c = Individual) (tbl_chats groupOnlyDb) = []"
    by (simp add: groupOnlyDb_def emptyDb_def groupChat_def)
  have only: "set (sharedChats (tbl_chatParticipants groupOnlyDb) (user_id alice) ''u_bob'') = {''chat_group_1''}"
    by (simp add: sharedChats_def groupOnlyDb_def emptyDb_def memberRow_def participantRow_def alice_def)
  have same: "groupOnlyDb\<lparr>tbl_chats := tbl_chats groupOnlyDb\<rparr> = groupOnlyDb"
    by simp
  from handleStartChat_reuses_any_shared [OF p q pa qb pq, where clock = "clockAt 9000" and kinds = "tbl_chats groupOnlyDb" and sh = chatDialog]
  show ?thesis using p q kinds only unfolding same by auto
qed


section \<open>Properties of the story lifecycle\<close>

lemma listed_loadStories:
  "listed (loadStories False clock (Some v) d vs) = 
     filter (\<lambda>s. story_userId s = user_id v) (activeStories d (clock 0))
     @ filter (\<lambda>s. story_userId s \<noteq> user_id v) (activeStories d (clock 0))"
  by (simp add: listed_def loadStories_def Let_def filter_map o_def withUserAndViews_def)

lemma set_listed:
  "set (listed (loadStories False clock (Some v) d vs)) = {s \<in> set (tbl_stories d). clock 0 < story_expiresAt s}"
  by (auto simp: listed_loadStories activeStories_def)

text \<open>
  C6. A story published while the clock reads \<open>T\<close> (the third clock read of
  \<^verbatim>\<open>handleAddStory\<close>), with the upload and the \<^verbatim>\<open>create\<close> succeeding, is stored
  with \<^verbatim>\<open>createdAt\<close> \<open>T\<close> and \<^verbatim>\<open>expiresAt\<close> \<open>T + 24 h\<close> (in milliseconds). A
  \<^verbatim>\<open>loadStories\<close> of any viewer whose clock reads \<open>q\<close> puts it on display exactly
  when \<open>q < T + 24 h\<close>; the story stays in the store either way.
\<close>

theorem story_listed_until_expiry:
  assumes "selectedFile vs = Some f" and "\<not> fails 0" and "\<not> fails 1"
    and "d' = fst (handleAddStory fails readFails clock publicUrl (Some u) (d, vs))"
    and "s = newStory clock u f publicUrl (storyCaption vs)"
  shows "story_createdAt s = clock 2
       \<and> story_expiresAt s = clock 2 + 24 * 60 * 60 * 1000
       \<and> s \<in> set (tbl_stories d')
       \<and> (s \<in> set (listed (loadStories False (clockAt q) (Some viewer) d' vs'))) = (q < clock 2 + 24 * 60 * 60 * 1000)"
proof -
  have d': "tbl_stories d' = tbl_stories d @ [s]"
    using assms by (simp add: handleAddStory_def Let_def)
  have "story_expiresAt s = clock 2 + 24 * 60 * 60 * 1000" "story_createdAt s = clock 2"
    using assms(5) by (simp_all add: newStory_def)
  then show ?thesis
    by (simp add: set_listed d' clockAt_def)
qed

theorem story_listed_until_expiry_witness:
  "selectedFile ((closedViewer [] [])\<lparr>selectedFile := Some picture\<rparr>) = Some picture
   \<and> \<not> noFault 0 \<and> \<not> noFault 1
   \<and> newStory (clockAt 1000) alice picture ''https://cdn.example/1'' []
        \<in> set (listed (loadStories False (clockAt 86400999) (Some bob)
                   (fst (handleAddStory noFault False (clockAt 1000) ''https://cdn.example/1'' (Some alice)
                           (emptyDb, (closedViewer [] [])\<lparr>selectedFile := Some picture\<rparr>)))
                   (closedViewer [] [])))
   \<and> newStory (clockAt 1000) alice picture ''https://cdn.example/1'' []
        \<notin> set (listed (loadStories False (clockAt 86401000) (Some bob)
                   (fst (handleAddStory noFault False (clockAt 1000) ''https://cdn.example/1'' (Some alice)
                           (emptyDb, (closedViewer [] [])\<lparr>selectedFile := Some picture\<rparr>)))
                   (closedViewer [] [])))"
proof -
  have f: "selectedFile ((closedViewer [] [])\<lparr>selectedFile := Some picture\<rparr>) = Some picture" by simp
  have n0: "\<not> noFault 0" and n1: "\<not> noFault 1" by (simp_all add: noFault_def)
  have c: "storyCaption ((closedViewer [] [])\<lparr>selectedFile := Some picture\<rparr>) = []"
    by (simp add: closedViewer_def)
  note t = story_listed_until_expiry [OF f n0 n1 refl refl, where readFails = False and clock = "clockAt 1000"
             and publicUrl = "''https://cdn.example/1''" and u = alice and d = emptyDb and viewer = bob
             and vs' = "closedViewer [] []"]
  from t [of 86400999] t [of 86401000] show ?thesis
    using f n0 n1 by (simp add: c clockAt_def)
qed

lemma pending_startTimer [simp]: "pending (startTimer i all w) = pending w"
  by (simp add: startTimer_def Let_def)

lemma store_startTimer [simp]: "store (startTimer i all w) = store w"
  by (simp add: startTimer_def Let_def)

lemma viewStory_other:
  assumes "story_userId (ls_fields st) \<noteq> user_id u" and "pending w = []"
  shows "pending (viewStory True True clock (Some u) all st i w) = []
       \<and> tbl_storyViews (store (viewStory True True clock (Some u) all st i w)) =
           (if viewsOf (store w) st u = [] 
            then tbl_storyViews (store w) @
                   [\<lparr> view_id = ''view_'' @ show_nat (clock 0), view_storyId = story_id (ls_fields st),
                       view_viewerId = user_id u, view_viewedAt = clock 1 \<rparr>]
            else tbl_storyViews (store w))"
  using assms
  by (simp add: viewStory_def handleViewStory_def resume_def at_index_def Let_def viewsOf_def)

text \<open>
  C7. For a viewer who is not the author, two calls of \<^verbatim>\<open>handleViewStory\<close> on the
  same story, each run to its end with both store calls succeeding, from a store that holds
  at most one view row of the pair, leave exactly one view row of the pair: the second call
  writes nothing, and the first writes one row when there was none.
\<close>

theorem view_twice_one_record:
  assumes "story_userId (ls_fields st) \<noteq> user_id u"
    and "pending w = []"
    and "length (viewsOf (store w) st u) \<le> 1"
    and "wa = viewStory True True clockA (Some u) allA st i w"
    and "wb = viewStory True True clockB (Some u) allB st j wa"
  shows "length (viewsOf (store wb) st u) = 1
       \<and> tbl_storyViews (store wb) = tbl_storyViews (store wa)
       \<and> (viewsOf (store w) st u = [] \<longrightarrow>
            tbl_storyViews (store wa) = tbl_storyViews (store w) @
              [\<lparr> view_id = ''view_'' @ show_nat (clockA 0), view_storyId = story_id (ls_fields st),
                  view_viewerId = user_id u, view_viewedAt = clockA 1 \<rparr>])"
proof -
  note a = viewStory_other [OF assms(1,2), of clockA allA i, folded assms(4)]
  then have pa: "pending wa = []" by simp
  note b = viewStory_other [OF assms(1) pa, of clockB allB j, folded assms(5)]
  have one: "length (viewsOf (store wa) st u) = 1"
  proof (cases "viewsOf (store w) st u = []")
    case True
    with a show ?thesis by (simp add: viewsOf_def)
  next
    case False
    with a assms(3) show ?thesis by (cases "viewsOf (store w) st u") (auto simp: viewsOf_def)
  qed
  then have ne: "viewsOf (store wa) st u \<noteq> []" by auto
  with b have same: "tbl_storyViews (store wb) = tbl_storyViews (store wa)" by simp
  then have "viewsOf (store wb) st u = viewsOf (store wa) st u" by (simp add: viewsOf_def)
  with one same a show ?thesis by simp
qed


theorem view_twice_one_record_witness:
  "story_userId (ls_fields bobStory1) \<noteq> user_id alice
   \<and> pending (closedWorld emptyDb [] [bobStory1]) = []
   \<and> length (viewsOf (store (closedWorld emptyDb [] [bobStory1])) bobStory1 alice) \<le> 1
   \<and> length (viewsOf (store (viewStory True True (clockAt 8000) (Some alice) [bobStory1] bobStory1 0
                (viewStory True True (clockAt 7000) (Some alice) [bobStory1] bobStory1 0 (closedWorld emptyDb [] [bobStory1])))) bobStory1 alice) = 1"
proof -
  have h1: "story_userId (ls_fields bobStory1) \<noteq> user_id alice"
    by (simp add: bobStory1_def shown_def storyRow_def alice_def)
  have h2: "pending (closedWorld emptyDb [] [bobStory1]) = []"
    by (simp add: closedWorld_def)
  have h3: "length (viewsOf (store (closedWorld emptyDb [] [bobStory1])) bobStory1 alice) \<le> 1"
    by (simp add: closedWorld_def viewsOf_def emptyDb_def)
  from view_twice_one_record [OF h1 h2 h3 refl refl, of "clockAt 8000" "[bobStory1]" 0 "clockAt 7000" "[bobStory1]" 0]
  show ?thesis using h1 h2 h3 by simp
qed


section \<open>Properties of the story viewer\<close>

lemma run_Cons: "run cu clock w (e # es) = run cu clock (step cu clock w e) es"
  by (simp add: run_def)

lemma run_Nil: "run cu clock w [] = w"
  by (simp add: run_def)

lemma tick_below:
  assumes "filter (\<lambda>t. t_handle t = h) (intervals w) \<noteq> []" and "storyProgress (ui w) < 100"
  shows "tick cu h w = w\<lparr>ui := (ui w)\<lparr>storyProgress := storyProgress (ui w) + 2\<rparr>\<rparr>"
  using assms by (simp add: tick_def split: list.splits)

lemma ticks_progress:
  assumes "filter (\<lambda>t. t_handle t = h) (intervals w) \<noteq> []" and "storyProgress (ui w) + 2 * k \<le> 101"
  shows "run cu clock w (replicate k (Tick h)) = w\<lparr>ui := (ui w)\<lparr>storyProgress := storyProgress (ui w) + 2 * k\<rparr>\<rparr>"
  using assms
proof (induction k arbitrary: w)
  case 0
  then show ?case by (simp add: run_Nil)
next
  case (Suc k)
  from Suc.prems have lt: "storyProgress (ui w) < 100" by simp
  let ?w = "w\<lparr>ui := (ui w)\<lparr>storyProgress := storyProgress (ui w) + 2\<rparr>\<rparr>"
  have a: "filter (\<lambda>t. t_handle t = h) (intervals ?w) \<noteq> []" using Suc.prems(1) by simp
  have b: "storyProgress (ui ?w) + 2 * k \<le> 101" using Suc.prems(2) by simp
  have "run cu clock w (replicate (Suc k) (Tick h)) = run cu clock ?w (replicate k (Tick h))"
    by (simp only: replicate_Suc run_Cons step.simps tick_below [OF Suc.prems(1) lt])
  also have "\<dots> = ?w\<lparr>ui := (ui ?w)\<lparr>storyProgress := storyProgress (ui ?w) + 2 * k\<rparr>\<rparr>"
    by (rule Suc.IH [OF a b])
  also have "\<dots> = w\<lparr>ui := (ui w)\<lparr>storyProgress := storyProgress (ui w) + 2 * Suc k\<rparr>\<rparr>"
    by simp
  finally show ?case .
qed

lemma replicate_snoc: "replicate (Suc n) x = replicate n x @ [x]"
  by (simp add: replicate_append_same)

lemma sample_stories:
  "story_userId (ls_fields aliceStory1) = ''u_alice''" "story_userId (ls_fields aliceStory2) = ''u_alice''"
  "story_userId (ls_fields bobStory1) = ''u_bob''" "story_userId (ls_fields bobStory2) = ''u_bob''"
  "story_userId (ls_fields bobStory3) = ''u_bob''"
  "story_id (ls_fields bobStory1) = ''story_3''" "story_id (ls_fields bobStory2) = ''story_4''"
  "story_id (ls_fields bobStory3) = ''story_5''"
  "user_id alice = ''u_alice''"
  by (simp_all add: aliceStory1_def aliceStory2_def bobStory1_def bobStory2_def bobStory3_def shown_def storyRow_def alice_def)

lemma playing_eq:
  "playing (aliceStory1 # rest) =
     \<lparr> store = emptyDb,
       ui = (closedViewer (aliceStory1 # rest) [])\<lparr>selectedStory := Some aliceStory1, showStoryViewer := True, storyTimer := Some 1\<rparr>,
       intervals = [\<lparr>t_handle = 1, t_index = 0, t_allStories = aliceStory1 # rest\<rparr>], timerCount = 1, pending = [] \<rparr>"
  by (simp add: playing_def openMine_def closedWorld_def closedViewer_def handleViewStory_def at_index_def
        startTimer_def Let_def sample_stories)

lemma fifty_ticks:
  "run (Some alice) (clockAt 0) (playing (aliceStory1 # rest)) (replicate 50 (Tick 1))
     = (playing (aliceStory1 # rest))\<lparr>ui := (ui (playing (aliceStory1 # rest)))\<lparr>storyProgress := 100\<rparr>\<rparr>"
proof -
  have act: "filter (\<lambda>t. t_handle t = 1) (intervals (playing (aliceStory1 # rest))) \<noteq> []"
    by (simp add: playing_eq)
  have p0: "storyProgress (ui (playing (aliceStory1 # rest))) = 0"
    by (simp add: playing_eq closedViewer_def)
  then have "storyProgress (ui (playing (aliceStory1 # rest))) + 2 * 50 \<le> 101" by simp
  from ticks_progress [OF act this, of "Some alice" "clockAt 0"] show ?thesis
    by (simp add: p0)
qed

lemma fifty_one_ticks:
  "run (Some alice) (clockAt 0) (playing (aliceStory1 # rest)) (replicate 51 (Tick 1))
     = tick (Some alice) 1 ((playing (aliceStory1 # rest))\<lparr>ui := (ui (playing (aliceStory1 # rest)))\<lparr>storyProgress := 100\<rparr>\<rparr>)"
proof -
  have split: "replicate 51 (Tick 1) = replicate 50 (Tick 1) @ [Tick 1]"
    using replicate_snoc [of 50 "Tick 1"] by simp
  have e: "run (Some alice) (clockAt 0) (playing (aliceStory1 # rest)) (replicate 51 (Tick 1))
               = step (Some alice) (clockAt 0)
                   (run (Some alice) (clockAt 0) (playing (aliceStory1 # rest)) (replicate 50 (Tick 1))) (Tick 1)"
    by (simp only: split run_def foldl_append foldl_Cons foldl_Nil)
  show ?thesis by (simp only: e fifty_ticks step.simps)
qed

text \<open>
  C8. Alice plays the first of her two stories from progress 0. After 50 firings of the
  interval the viewer is still on that story, at index 0, with progress 100; the updater
  advances only when it runs with \<^verbatim>\<open>prev >= 100\<close>, which is the 51st firing, and that
  one moves to index 1 with progress 0. With a single story the viewer is still open after
  50 firings and closes on the 51st.
\<close>

theorem advance_needs_51_ticks:
  "selectedStory (ui (playing [aliceStory1, aliceStory2])) = Some aliceStory1
   \<and> currentStoryIndex (ui (playing [aliceStory1, aliceStory2])) = 0
   \<and> storyProgress (ui (playing [aliceStory1, aliceStory2])) = 0
   \<and> selectedStory (ui (run (Some alice) (clockAt 0) (playing [aliceStory1, aliceStory2]) (replicate 50 (Tick 1)))) = Some aliceStory1
   \<and> currentStoryIndex (ui (run (Some alice) (clockAt 0) (playing [aliceStory1, aliceStory2]) (replicate 50 (Tick 1)))) = 0
   \<and> storyProgress (ui (run (Some alice) (clockAt 0) (playing [aliceStory1, aliceStory2]) (replicate 50 (Tick 1)))) = 100
   \<and> selectedStory (ui (run (Some alice) (clockAt 0) (playing [aliceStory1, aliceStory2]) (replicate 51 (Tick 1)))) = Some aliceStory2
   \<and> currentStoryIndex (ui (run (Some alice) (clockAt 0) (playing [aliceStory1, aliceStory2]) (replicate 51 (Tick 1)))) = 1
   \<and> storyProgress (ui (run (Some alice) (clockAt 0) (playing [aliceStory1, aliceStory2]) (replicate 51 (Tick 1)))) = 0
   \<and> showStoryViewer (ui (run (Some alice) (clockAt 0) (playing [aliceStory1]) (replicate 50 (Tick 1))))
   \<and> storyProgress (ui (run (Some alice) (clockAt 0) (playing [aliceStory1]) (replicate 50 (Tick 1)))) = 100
   \<and> \<not> showStoryViewer (ui (run (Some alice) (clockAt 0) (playing [aliceStory1]) (replicate 51 (Tick 1))))"
proof -
  have start: "selectedStory (ui (playing [aliceStory1, aliceStory2])) = Some aliceStory1"
    "currentStoryIndex (ui (playing [aliceStory1, aliceStory2])) = 0" "storyProgress (ui (playing [aliceStory1, aliceStory2])) = 0"
    "showStoryViewer (ui (playing [aliceStory1]))"
    by (simp_all add: playing_eq closedViewer_def)
  have two: "tick (Some alice) 1 ((playing [aliceStory1, aliceStory2])\<lparr>ui := (ui (playing [aliceStory1, aliceStory2]))\<lparr>storyProgress := 100\<rparr>\<rparr>)
      = \<lparr> store = emptyDb,
          ui = (closedViewer [aliceStory1, aliceStory2] [])\<lparr>selectedStory := Some aliceStory2, currentStoryIndex := 1,
                  showStoryViewer := True, storyTimer := Some 2\<rparr>,
          intervals = [\<lparr>t_handle = 2, t_index = 1, t_allStories = [aliceStory1, aliceStory2]\<rparr>], timerCount = 2, pending = [] \<rparr>"
    by (simp add: playing_eq closedViewer_def tick_def clearInterval_def handleViewStory_def
          at_index_def startTimer_def Let_def sample_stories)
  have single: "tick (Some alice) 1 ((playing [aliceStory1])\<lparr>ui := (ui (playing [aliceStory1]))\<lparr>storyProgress := 100\<rparr>\<rparr>)
      = \<lparr> store = emptyDb,
          ui = (closedViewer [aliceStory1] [])\<lparr>selectedStory := Some aliceStory1, storyTimer := Some 1\<rparr>,
          intervals = [], timerCount = 1, pending = [] \<rparr>"
    by (simp add: playing_eq closedViewer_def tick_def clearInterval_def Let_def)
  show ?thesis
    unfolding fifty_ticks fifty_one_ticks two single
    using start by (simp add: closedViewer_def)
qed

text \<open>
  From a settled state each of next, previous, close and a firing of an interval leaves at
  most one interval, running or about to be started; and a resumption never adds to that
  number.
\<close>

lemma handleViewStory_count:
  "length (intervals (handleViewStory cu all story i w)) + length (pending (handleViewStory cu all story i w))
     \<le> Suc (length (intervals w) + length (pending w))"
  by (simp add: handleViewStory_def viewFailed_def startTimer_def Let_def split: option.splits)

lemma settled_clear:
  assumes "settled w"
  shows "intervals (clearStoryTimer w) = []" and "pending (clearStoryTimer w) = []"
  using assms
  by (auto simp: settled_def clearStoryTimer_def clearInterval_def split: list.splits option.splits)

lemma settled_close:
  assumes "settled w"
  shows "intervals (closeStoryViewer w) = []" and "pending (closeStoryViewer w) = []"
  using assms
  by (auto simp: settled_def closeStoryViewer_def clearInterval_def Let_def split: list.splits option.splits)

lemma settled_tick:
  assumes "settled w"
  shows "length (intervals (tick cu h w)) + length (pending (tick cu h w)) \<le> 1"
proof (cases "filter (\<lambda>t. t_handle t = h) (intervals w)")
  case Nil
  then have "tick cu h w = w" by (simp add: tick_def)
  with assms show ?thesis by (auto simp: settled_def split: list.splits)
next
  case (Cons t ts)
  with assms have iv: "intervals w = [t]" and h: "t_handle t = h" and p: "pending w = []"
    by (auto simp: settled_def split: list.splits if_splits)
  have c: "intervals (clearInterval h w) = []" "pending (clearInterval h w) = []"
    using iv h p by (simp_all add: clearInterval_def)
  show ?thesis
  proof (cases "storyProgress (ui w) \<ge> 100")
    case False
    with Cons iv p show ?thesis by (simp add: tick_def)
  next
    case True
    with Cons handleViewStory_count [of cu "t_allStories t" "at_index (t_allStories t) (t_index t + 1)"
             "t_index t + 1" "clearInterval h w"] c
    show ?thesis by (simp add: tick_def Let_def)
  qed
qed

lemma step_from_settled:
  assumes "settled w" and "e = Next \<or> e = Prev \<or> e = Close \<or> e = Tick h"
  shows "length (intervals (step cu clock w e)) + length (pending (step cu clock w e)) \<le> 1"
proof -
  note c = settled_clear [OF assms(1)] settled_close [OF assms(1)]
  have n: "length (intervals (nextStory cu w)) + length (pending (nextStory cu w)) \<le> 1"
    using c handleViewStory_count [of cu "myStories (ui w) @ stories (ui w)"
              "at_index (myStories (ui w) @ stories (ui w)) (currentStoryIndex (ui w) + 1)"
              "currentStoryIndex (ui w) + 1" "clearStoryTimer w"]
    by (simp add: nextStory_def Let_def)
  have p: "length (intervals (prevStory cu w)) + length (pending (prevStory cu w)) \<le> 1"
    using c assms(1) handleViewStory_count [of cu "myStories (ui w) @ stories (ui w)"
              "at_index (myStories (ui w) @ stories (ui w)) (currentStoryIndex (ui w) - 1)"
              "currentStoryIndex (ui w) - 1" "clearStoryTimer w"]
    by (auto simp: prevStory_def Let_def settled_def split: list.splits)
  from assms(2) n p c settled_tick [OF assms(1), of cu h] show ?thesis by auto
qed

lemma resume_count:
  "length (intervals (resume clock k ok w)) + length (pending (resume clock k ok w))
     \<le> length (intervals w) + length (pending w)"
proof (cases "k < length (pending w)")
  case False
  then show ?thesis by (simp add: resume_def at_index_def)
next
  case True
  then have "length (take k (pending w) @ drop (Suc k) (pending w)) = length (pending w) - 1"
    by simp
  with True show ?thesis
    by (cases "pending w ! k") (auto simp add: resume_def at_index_def startTimer_def viewFailed_def Let_def)
qed

text \<open>
  C9. Alice watches Bob's first story; one interval (handle 1) is active. She taps the
  right half twice before the store has answered the first tap. Each \<^verbatim>\<open>nextStory\<close>
  clears the interval that \<^verbatim>\<open>storyTimer\<close> holds, which is handle 1 both times, and
  each \<^verbatim>\<open>handleViewStory\<close> suspends on its store call before it has started its
  interval. When the four store calls have returned, the intervals with handles 2 and 3
  are both active.
\<close>

theorem double_next_two_timers:
  "map t_handle (intervals watching) = [1]
   \<and> pending watching = []
   \<and> map t_handle (intervals (run (Some alice) (clockAt 7000) watching [Next, Next])) = []
   \<and> map t_handle (intervals (run (Some alice) (clockAt 7000) watching
        [Next, Next, Resume 0 True, Resume 0 True, Resume 0 True, Resume 0 True])) = [2, 3]"
proof (intro conjI)
  show "map t_handle (intervals watching) = [1]"
    by (simp add: watching_def run_def closedWorld_def closedViewer_def emptyDb_def openUser_def
        handleViewStory_def resume_def at_index_def startTimer_def findIndex_def Let_def sample_stories
        clockAt_def)
  show "pending watching = []"
    by (simp add: watching_def run_def closedWorld_def closedViewer_def emptyDb_def openUser_def
        handleViewStory_def resume_def at_index_def startTimer_def findIndex_def Let_def sample_stories
        clockAt_def)
  show "map t_handle (intervals (run (Some alice) (clockAt 7000) watching [Next, Next])) = []"
    by (simp add: watching_def run_def closedWorld_def closedViewer_def emptyDb_def openUser_def
        handleViewStory_def resume_def at_index_def startTimer_def nextStory_def clearStoryTimer_def
        clearInterval_def findIndex_def Let_def sample_stories clockAt_def)
  show "map t_handle (intervals (run (Some alice) (clockAt 7000) watching
        [Next, Next, Resume 0 True, Resume 0 True, Resume 0 True, Resume 0 True])) = [2, 3]"
    by (simp add: watching_def run_def closedWorld_def closedViewer_def emptyDb_def openUser_def
        handleViewStory_def resume_def at_index_def startTimer_def nextStory_def clearStoryTimer_def
        clearInterval_def findIndex_def Let_def sample_stories clockAt_def)
qed

end
